theory Spec2Isabelle
  imports Complex_Main "HOL-Library.AList" "HOL-Library.Sublist"
begin

section \<open>Python values, dictionaries and exceptions\<close>

text \<open>
  The values that travel through keyword dictionaries. A float in a dictionary is only
  passed through or compared with zero, so it is kept as the rational its decimal
  literal denotes. The floats \<open>calculate_usage\<close> computes with are binary64 values, see
  \<open>pyfloat\<close> below.
\<close>

datatype pyval =
    VNone
  | VBool bool
  | VInt int
  | VFloat rat
  | VStr string
  | VList "pyval list"

text \<open>Truthiness, as \<open>if use_local:\<close> reads it.\<close>

fun truthy :: "pyval \<Rightarrow> bool" where
  "truthy VNone = False"
| "truthy (VBool b) = b"
| "truthy (VInt i) = (i \<noteq> 0)"
| "truthy (VFloat r) = (r \<noteq> 0)"
| "truthy (VStr s) = (s \<noteq> [])"
| "truthy (VList xs) = (xs \<noteq> [])"

text \<open>
  A \<open>dict\<close> with string keys, in insertion order: an association list whose keys are
  distinct. \<open>d.update(other)\<close> replaces the value of a key that is present (in place) and
  appends a key that is new; \<open>d.pop(k, default)\<close> removes the key and returns its value, or
  returns the default when the key is absent.
\<close>

type_synonym pydict = "(string \<times> pyval) list"

definition dict_get :: "pydict \<Rightarrow> string \<Rightarrow> pyval option" where
  "dict_get d k = map_of d k"

definition dict_update :: "pydict \<Rightarrow> pydict \<Rightarrow> pydict" where
  "dict_update d other = fold (\<lambda>(k, v). AList.update k v) other d"

definition dict_pop :: "pydict \<Rightarrow> string \<Rightarrow> pyval \<Rightarrow> pyval \<times> pydict" where
  "dict_pop d k dflt =
     (case map_of d k of
        None \<Rightarrow> (dflt, d)
      | Some v \<Rightarrow> (v, AList.delete k d))"

text \<open>
  Exceptions. \<open>InvalidPromptError\<close> carries its message, provider and model name;
  \<open>ValidationError\<close> its message and provider; \<open>ProviderAPIError\<close> its provider, message
  and cause. \<open>HTTPError\<close> is \<open>requests.exceptions.HTTPError\<close> with the status code of its
  response (\<open>None\<close> when it has no response) and its text. \<open>PyException\<close> is any other
  exception: its class name and its \<open>str()\<close>.
\<close>

datatype exn =
    InvalidPromptError string string string
  | ValidationError string string
  | ProviderAPIError string string exn
  | HTTPError "int option" string
  | PyException string string

section \<open>Binary floating point\<close>

text \<open>
  A Python \<open>float\<close> is an IEEE 754 binary64 value: a rational \<open>m * 2 ^ e\<close> with
  \<open>\<bar>m\<bar> < 2 ^ 53\<close> and \<open>- 1074 \<le> e\<close>, of magnitude below \<open>2 ^ 1024\<close>, or an infinity, or
  not-a-number. The two zeros, which compare equal, are one value here. Every operation
  returns the exact result rounded to the nearest float, a tie going to the even
  significand, and an infinity when the rounded magnitude reaches \<open>2 ^ 1024\<close>.
\<close>

datatype pyfloat = Finite rat | PosInf | NegInf | NaN

text \<open>The number of binary digits of a natural number.\<close>

fun bits :: "nat \<Rightarrow> nat" where
  "bits n = (if n = 0 then 0 else Suc (bits (n div 2)))"

declare bits.simps [simp del]

definition pow2 :: "int \<Rightarrow> rat" where
  "pow2 e = (if 0 \<le> e then 2 ^ nat e else 1 / 2 ^ nat (- e))"

text \<open>For \<open>x \<noteq> 0\<close>, the exponent \<open>e\<close> with \<open>2 ^ e \<le> \<bar>x\<bar> < 2 ^ (e + 1)\<close>.\<close>

definition ilog2 :: "rat \<Rightarrow> int" where
  "ilog2 x =
     (if 1 \<le> \<bar>x\<bar> then int (bits (nat \<lfloor>\<bar>x\<bar>\<rfloor>)) - 1
      else - int (bits (nat (\<lceil>1 / \<bar>x\<bar>\<rceil> - 1))))"

text \<open>Rounding to the nearest integer, a tie going to the even one.\<close>

definition round_half_even :: "rat \<Rightarrow> int" where
  "round_half_even y =
     (let f = \<lfloor>y\<rfloor>; d = y - of_int f in
      if d < 1 / 2 then f
      else if 1 / 2 < d then f + 1
      else if even f then f else f + 1)"

text \<open>
  \<open>rnd64 x\<close>: the float nearest to the exact value \<open>x\<close>. Around \<open>x\<close> the floats are the
  multiples of \<open>2 ^ (e - 52)\<close>, where \<open>e\<close> is the exponent of \<open>x\<close>, and not less than
  \<open>- 1022\<close> (below that the floats are subnormal, with the spacing \<open>2 ^ - 1074\<close>).
\<close>

definition rnd64 :: "rat \<Rightarrow> pyfloat" where
  "rnd64 x =
     (if x = 0 then Finite 0
      else
        let q = pow2 (max (ilog2 x) (- 1022) - 52);
            y = of_int (round_half_even (x / q)) * q
        in if pow2 1024 \<le> \<bar>y\<bar> then (if 0 < y then PosInf else NegInf) else Finite y)"

text \<open>
  \<open>float(n)\<close> of an integer, as the true division \<open>n / 1000.0\<close> takes it first: the
  nearest float, and \<open>OverflowError\<close> when that is out of range.
\<close>

definition float_of_int :: "int \<Rightarrow> exn + pyfloat" where
  "float_of_int n =
     (case rnd64 (of_int n) of
        Finite y \<Rightarrow> Inr (Finite y)
      | _ \<Rightarrow> Inl (PyException ''OverflowError'' ''int too large to convert to float''))"

fun fadd :: "pyfloat \<Rightarrow> pyfloat \<Rightarrow> pyfloat" where
  "fadd (Finite a) (Finite b) = rnd64 (a + b)"
| "fadd NaN _ = NaN"
| "fadd _ NaN = NaN"
| "fadd PosInf NegInf = NaN"
| "fadd NegInf PosInf = NaN"
| "fadd PosInf _ = PosInf"
| "fadd NegInf _ = NegInf"
| "fadd _ PosInf = PosInf"
| "fadd _ NegInf = NegInf"

text \<open>The sign of an infinite product or quotient: positive when both signs agree.\<close>

definition signed_inf :: "bool \<Rightarrow> pyfloat" where
  "signed_inf same = (if same then PosInf else NegInf)"

fun fmul :: "pyfloat \<Rightarrow> pyfloat \<Rightarrow> pyfloat" where
  "fmul (Finite a) (Finite b) = rnd64 (a * b)"
| "fmul NaN _ = NaN"
| "fmul _ NaN = NaN"
| "fmul PosInf (Finite b) = (if b = 0 then NaN else signed_inf (0 < b))"
| "fmul NegInf (Finite b) = (if b = 0 then NaN else signed_inf (b < 0))"
| "fmul (Finite a) PosInf = (if a = 0 then NaN else signed_inf (0 < a))"
| "fmul (Finite a) NegInf = (if a = 0 then NaN else signed_inf (a < 0))"
| "fmul PosInf PosInf = PosInf"
| "fmul NegInf NegInf = PosInf"
| "fmul PosInf NegInf = NegInf"
| "fmul NegInf PosInf = NegInf"

text \<open>\<open>x / y\<close> of two floats raises \<open>ZeroDivisionError\<close> when \<open>y\<close> is zero.\<close>

fun fdiv :: "pyfloat \<Rightarrow> pyfloat \<Rightarrow> exn + pyfloat" where
  "fdiv x (Finite b) =
     (if b = 0 then Inl (PyException ''ZeroDivisionError'' ''float division by zero'')
      else case x of
             Finite a \<Rightarrow> Inr (rnd64 (a / b))
           | PosInf \<Rightarrow> Inr (signed_inf (0 < b))
           | NegInf \<Rightarrow> Inr (signed_inf (b < 0))
           | NaN \<Rightarrow> Inr NaN)"
| "fdiv x NaN = Inr NaN"
| "fdiv (Finite a) _ = Inr (Finite 0)"
| "fdiv _ _ = Inr NaN"

text \<open>
  \<open>round(x, ndigits)\<close> for \<open>ndigits \<ge> 0\<close>: the exact value of \<open>x\<close> is rounded to
  \<open>ndigits\<close> decimal places, a tie going to the even digit, and the float nearest to that
  decimal is returned; an infinity and not-a-number are returned as they are.
\<close>

definition py_round :: "pyfloat \<Rightarrow> nat \<Rightarrow> pyfloat" where
  "py_round x ndigits =
     (case x of
        Finite v \<Rightarrow> rnd64 (of_int (round_half_even (v * 10 ^ ndigits)) / 10 ^ ndigits)
      | _ \<Rightarrow> x)"

section \<open>Computations that may raise and that change a state\<close>

type_synonym ('a, 's) py = "'s \<Rightarrow> (exn + 'a) \<times> 's"

definition py_return :: "'a \<Rightarrow> ('a, 's) py" where
  "py_return x s = (Inr x, s)"

definition py_raise :: "exn \<Rightarrow> ('a, 's) py" where
  "py_raise e s = (Inl e, s)"

definition py_bind :: "('a, 's) py \<Rightarrow> ('a \<Rightarrow> ('b, 's) py) \<Rightarrow> ('b, 's) py" where
  "py_bind m f s =
     (case m s of
        (Inl e, s') \<Rightarrow> (Inl e, s')
      | (Inr x, s') \<Rightarrow> f x s')"

text \<open>\<open>try: m except Exception as exc: h exc\<close>\<close>

definition py_try :: "('a, 's) py \<Rightarrow> (exn \<Rightarrow> ('a, 's) py) \<Rightarrow> ('a, 's) py" where
  "py_try m h s =
     (case m s of
        (Inl e, s') \<Rightarrow> h e s'
      | (Inr x, s') \<Rightarrow> (Inr x, s'))"

section \<open>The Hugging Face provider: its collaborators and its state\<close>

datatype level = INFO | WARNING | ERROR | EXCEPTION

datatype logarg = AStr string | AInt int | AVal pyval | AExn exn

datatype log_record = LogRecord level string "logarg list"

text \<open>
  What a local text-generation pipeline returns: a list of dictionaries, or anything
  else, of which the code only takes \<open>str(result)\<close>.
\<close>

datatype pipe_out = OutList "pydict list" | OutOther string

text \<open>
  The collaborators outside the repository. Each is a function of the number of external
  calls made before it (\<open>tick\<close>), so a collaborator may answer differently from one call
  to the next (a backend that fails twice and then answers).
  \<^item> \<open>build_prompt\<close>: the inherited \<open>BaseChatParameters.build_prompt\<close>, from the context
    and the prompt;
  \<^item> \<open>hub_model_info\<close>: \<open>HfApi().model_info(name)\<close>, \<open>Some exc\<close> when it raises;
  \<^item> \<open>from_pretrained\<close>: \<open>AutoTokenizer.from_pretrained(model_id)\<close>, \<open>Some exc\<close> when it
    raises;
  \<^item> \<open>encode\<close>: \<open>tokenizer.encode(text)\<close> of the tokenizer loaded for a model id;
  \<^item> \<open>import_transformers\<close>: \<open>from transformers import AutoModelForCausalLM, pipeline\<close>,
    \<open>Some exc\<close> when it raises;
  \<^item> \<open>load_pipeline\<close>: \<open>AutoModelForCausalLM.from_pretrained(...)\<close> followed by
    \<open>pipeline(...)\<close>, \<open>Some exc\<close> when one of them raises;
  \<^item> \<open>run_pipeline\<close>: the call of the loaded pipeline with the prompt, \<open>max_new_tokens\<close>,
    \<open>temperature\<close> and the remaining keyword arguments;
  \<^item> \<open>text_generation\<close>: \<open>client.text_generation(prompt=..., model=..., **kwargs)\<close>;
  \<^item> \<open>exn_str\<close>: \<open>str(exc)\<close> of the framework's own exception classes.
\<close>

record env =
  build_prompt :: "string option \<Rightarrow> string \<Rightarrow> string"
  hub_model_info :: "nat \<Rightarrow> string \<Rightarrow> exn option"
  from_pretrained :: "nat \<Rightarrow> string \<Rightarrow> exn option"
  encode :: "nat \<Rightarrow> string \<Rightarrow> pyval \<Rightarrow> exn + nat list"
  import_transformers :: "nat \<Rightarrow> exn option"
  load_pipeline :: "nat \<Rightarrow> string \<Rightarrow> exn option"
  run_pipeline :: "nat \<Rightarrow> string \<Rightarrow> pyval \<Rightarrow> pyval \<Rightarrow> pyval \<Rightarrow> pydict \<Rightarrow> exn + pipe_out"
  text_generation :: "nat \<Rightarrow> pyval \<Rightarrow> string \<Rightarrow> pydict \<Rightarrow> exn + string"
  exn_str :: "exn \<Rightarrow> string"

text \<open>\<open>model_info\<close>: the model's name and its cost schedule.\<close>

record model_info =
  mi_name :: string
  input_cost_per_thousand :: pyfloat
  output_cost_per_thousand :: pyfloat

text \<open>
  The state a call works on: the adapter's attributes \<open>self.tokenizer\<close> and
  \<open>self._local_model\<close> (the model id they were loaded for), and what the call does to the
  outside: the log records, the backend calls with their arguments, the waits of the
  retry policy and the number of attempts it made.
\<close>

record world =
  tick :: nat
  tokenizer :: "string option"
  local_model :: "string option"
  logs :: "log_record list"
  remote_calls :: "(pyval \<times> string \<times> pydict) list"
  local_calls :: "(pyval \<times> pyval \<times> pyval \<times> pydict) list"
  sleeps :: "nat list"
  attempts :: nat

definition PROVIDER_NAME :: string where
  "PROVIDER_NAME = ''HuggingFace''"

definition log_msg :: "level \<Rightarrow> string \<Rightarrow> logarg list \<Rightarrow> (unit, world) py" where
  "log_msg lv msg args w = (Inr (), w\<lparr>logs := logs w @ [LogRecord lv msg args]\<rparr>)"

text \<open>An external call that raises or returns nothing: it consumes one tick.\<close>

definition ext_unit :: "(nat \<Rightarrow> exn option) \<Rightarrow> (unit, world) py" where
  "ext_unit f w =
     (case f (tick w) of
        Some exc \<Rightarrow> (Inl exc, w\<lparr>tick := Suc (tick w)\<rparr>)
      | None \<Rightarrow> (Inr (), w\<lparr>tick := Suc (tick w)\<rparr>))"

definition ext_call :: "(nat \<Rightarrow> exn + 'a) \<Rightarrow> ('a, world) py" where
  "ext_call f w = (f (tick w), w\<lparr>tick := Suc (tick w)\<rparr>)"

section \<open>Model-name normalization\<close>

definition model_not_found_warning :: string where
  "model_not_found_warning =
     ''HuggingFace model '%s' not found on Hub. Falling back to '%s': %s''"

definition default_model :: string where
  "default_model = ''mistralai/Mistral-7B-Instruct-v0.2''"

definition strip_provider_prefix :: "string \<Rightarrow> string" where
  "strip_provider_prefix raw_name =
     (if prefix ''huggingface:'' raw_name then drop 12 raw_name else raw_name)"

definition normalize_huggingface_model_name :: "env \<Rightarrow> string \<Rightarrow> (string, world) py" where
  "normalize_huggingface_model_name e raw_name =
     (let raw = strip_provider_prefix raw_name in
      py_try
        (py_bind (ext_unit (\<lambda>t. hub_model_info e t raw)) (\<lambda>_. py_return raw))
        (\<lambda>exc.
           py_bind
             (log_msg WARNING model_not_found_warning
                [AStr raw, AStr default_model, AExn exc])
             (\<lambda>_. py_return default_model)))"

section \<open>Strings\<close>

text \<open>
  \<open>str.split()\<close> with no argument splits at runs of whitespace and drops empty
  pieces; \<open>str.lstrip()\<close> drops leading whitespace. A \<open>char\<close> is one of the first 256 code
  points, of which Python counts these as whitespace.
\<close>

definition py_isspace :: "char \<Rightarrow> bool" where
  "py_isspace c = ((of_char c :: nat) \<in> {9, 10, 11, 12, 13, 28, 29, 30, 31, 32, 133, 160})"

fun split_ws :: "string \<Rightarrow> string \<Rightarrow> string list" where
  "split_ws cur [] = (if cur = [] then [] else [cur])"
| "split_ws cur (c # cs) =
     (if py_isspace c then (if cur = [] then split_ws [] cs else cur # split_ws [] cs)
      else split_ws (cur @ [c]) cs)"

definition py_split :: "string \<Rightarrow> string list" where
  "py_split s = split_ws [] s"

definition py_lstrip :: "string \<Rightarrow> string" where
  "py_lstrip s = dropWhile py_isspace s"

text \<open>\<open>str(n)\<close> of an integer: its decimal digits, with a minus sign when negative.\<close>

fun str_nat :: "nat \<Rightarrow> string" where
  "str_nat n =
     (if n < 10 then [''0123456789'' ! n]
      else str_nat (n div 10) @ [''0123456789'' ! (n mod 10)])"

declare str_nat.simps [simp del]

definition str_int :: "int \<Rightarrow> string" where
  "str_int i = (if i < 0 then CHR ''-'' # str_nat (nat (- i)) else str_nat (nat i))"

text \<open>\<open>str(exc)\<close>: the text of a foreign exception, \<open>exn_str\<close> for the framework's own.\<close>

definition py_str_exn :: "env \<Rightarrow> exn \<Rightarrow> string" where
  "py_str_exn e exc =
     (case exc of
        PyException c m \<Rightarrow> m
      | HTTPError st m \<Rightarrow> m
      | _ \<Rightarrow> exn_str e exc)"

section \<open>Parameter normalization\<close>

text \<open>
  Modelled from the spec: the declarations of \<open>ChatRequest\<close> and of the base class
  \<open>BaseChatParameters\<close> are not among the sources. The spec gives a request a prompt, an
  optional context, a temperature, an optional \<open>max_tokens\<close>, an optional timeout and the
  mapping \<open>provider_params\<close>. The prompt is optional here because \<open>forward\<close> tests it with
  \<open>not request.prompt\<close>, which holds for \<open>None\<close> and for the empty string.
\<close>

record chat_request =
  req_prompt :: "string option"
  req_context :: "string option"
  req_temperature :: rat
  req_max_tokens :: "int option"
  req_timeout :: "int option"
  req_provider_params :: pydict

record hf_chat_parameters =
  par_prompt :: string
  par_context :: "string option"
  par_temperature :: rat
  par_max_tokens :: int
  par_timeout :: "int option"

definition enforce_default_if_none :: "int option \<Rightarrow> int" where
  "enforce_default_if_none v = (case v of None \<Rightarrow> 512 | Some n \<Rightarrow> n)"

definition ensure_positive :: "int \<Rightarrow> exn + int" where
  "ensure_positive v =
     (if v \<le> 0
      then Inl (ValidationError (''max_tokens must be a positive integer, got '' @ str_int v)
                  ''HuggingFace'')
      else Inr v)"

text \<open>
  \<open>HuggingFaceChatParameters(**request.model_dump(exclude={"provider_params"}))\<close>, for a
  request whose prompt is the string \<open>p\<close>: the two validators of \<open>max_tokens\<close> run in
  turn, the other fields are taken as they are.
\<close>

definition HuggingFaceChatParameters :: "string \<Rightarrow> chat_request \<Rightarrow> exn + hf_chat_parameters" where
  "HuggingFaceChatParameters p request =
     (case ensure_positive (enforce_default_if_none (req_max_tokens request)) of
        Inl exc \<Rightarrow> Inl exc
      | Inr m \<Rightarrow>
          Inr \<lparr>par_prompt = p, par_context = req_context request,
               par_temperature = req_temperature request, par_max_tokens = m,
               par_timeout = req_timeout request\<rparr>)"

definition to_huggingface_kwargs :: "env \<Rightarrow> hf_chat_parameters \<Rightarrow> pydict" where
  "to_huggingface_kwargs e ps =
     (let prompt = build_prompt e (par_context ps) (par_prompt ps) in
      [(''prompt'', VStr prompt),
       (''max_new_tokens'', VInt (par_max_tokens ps)),
       (''temperature'', VFloat (par_temperature ps)),
       (''timeout'', (case par_timeout ps of None \<Rightarrow> VNone | Some t \<Rightarrow> VInt t))])"

text \<open>The merge of \<open>forward\<close>: \<open>hf_kwargs.update({k: v for k, v in ... if v is not None})\<close>.\<close>

definition merge_provider_params :: "pydict \<Rightarrow> pydict \<Rightarrow> pydict" where
  "merge_provider_params hf_kwargs provider_params =
     dict_update hf_kwargs (filter (\<lambda>(k, v). v \<noteq> VNone) provider_params)"

section \<open>Token counting and usage\<close>

definition get_tokenizer :: "env \<Rightarrow> model_info \<Rightarrow> (string, world) py" where
  "get_tokenizer e mi w =
     (case tokenizer w of
        Some tok \<Rightarrow> (Inr tok, w)
      | None \<Rightarrow>
          py_bind (normalize_huggingface_model_name e (mi_name mi)) (\<lambda>model_id.
          py_bind (ext_unit (\<lambda>t. from_pretrained e t model_id)) (\<lambda>_.
          (\<lambda>w'. (Inr model_id, w'\<lparr>tokenizer := Some model_id\<rparr>)))) w)"

definition count_tokens_warning :: string where
  "count_tokens_warning = ''Failed to count tokens, estimating based on words: %s''"

text \<open>The \<open>try\<close> block of \<open>_count_tokens\<close>: the exact count.\<close>

definition count_tokens_try :: "env \<Rightarrow> model_info \<Rightarrow> pyval \<Rightarrow> (int, world) py" where
  "count_tokens_try e mi text =
     py_bind (get_tokenizer e mi) (\<lambda>tok.
     py_bind (ext_call (\<lambda>t. encode e t tok text)) (\<lambda>tokens.
     py_return (int (length tokens))))"

text \<open>
  \<open>_count_tokens\<close>: the handler logs a warning and counts the words of the text; a value
  that is not a string has no \<open>split\<close>.
\<close>

definition count_tokens :: "env \<Rightarrow> model_info \<Rightarrow> pyval \<Rightarrow> (int, world) py" where
  "count_tokens e mi text =
     py_try
       (count_tokens_try e mi text)
       (\<lambda>exc.
          py_bind
            (log_msg WARNING count_tokens_warning [AExn exc])
            (\<lambda>_. case text of
                    VStr s \<Rightarrow> py_return (int (length (py_split s)))
                  | _ \<Rightarrow> py_raise (PyException ''AttributeError'' ''split'')))"

record usage_data =
  u_prompt_tokens :: "int option"
  u_completion_tokens :: "int option"

record raw_output =
  generated_text :: string
  model :: string
  usage :: "usage_data option"

record usage_stats =
  total_tokens :: int
  prompt_tokens :: int
  completion_tokens :: int
  cost_usd :: pyfloat

text \<open>
  \<open>calculate_usage\<close>. The counts are integers of any size; \<open>n / 1000.0\<close> converts the
  count to a float, which raises for a count out of the float range, and divides.
\<close>

definition true_div_1000 :: "int \<Rightarrow> exn + pyfloat" where
  "true_div_1000 n =
     (case float_of_int n of
        Inl exc \<Rightarrow> Inl exc
      | Inr x \<Rightarrow> fdiv x (Finite 1000))"

definition calculate_usage :: "model_info \<Rightarrow> raw_output \<Rightarrow> exn + usage_stats" where
  "calculate_usage mi raw =
     (let usage_data =
            (case usage raw of
               None \<Rightarrow> \<lparr>u_prompt_tokens = None, u_completion_tokens = None\<rparr>
             | Some u \<Rightarrow> u);
          prompt_tokens' = (case u_prompt_tokens usage_data of None \<Rightarrow> 0 | Some n \<Rightarrow> n);
          completion_tokens' =
            (case u_completion_tokens usage_data of None \<Rightarrow> 0 | Some n \<Rightarrow> n);
          total_tokens' = prompt_tokens' + completion_tokens'
      in case true_div_1000 prompt_tokens' of
           Inl exc \<Rightarrow> Inl exc
         | Inr p \<Rightarrow>
             let input_cost = fmul p (input_cost_per_thousand mi) in
             (case true_div_1000 completion_tokens' of
                Inl exc \<Rightarrow> Inl exc
              | Inr c \<Rightarrow>
                  let output_cost = fmul c (output_cost_per_thousand mi);
                      total_cost = py_round (fadd input_cost output_cost) 6
                  in Inr \<lparr>total_tokens = total_tokens', prompt_tokens = prompt_tokens',
                          completion_tokens = completion_tokens', cost_usd = total_cost\<rparr>))"

section \<open>The provider's forward\<close>

record chat_response =
  resp_data :: string
  resp_raw_output :: raw_output
  resp_usage :: usage_stats

definition load_local_model :: "env \<Rightarrow> string \<Rightarrow> (string, world) py" where
  "load_local_model e model_id =
     py_try
       (py_bind (ext_unit (import_transformers e)) (\<lambda>_.
        py_bind (log_msg INFO ''Loading model %s locally'' [AStr model_id]) (\<lambda>_.
        py_bind (ext_unit (\<lambda>t. from_pretrained e t model_id)) (\<lambda>_.
        py_bind (\<lambda>w. (Inr (), w\<lparr>tokenizer := Some model_id\<rparr>)) (\<lambda>_.
        py_bind (ext_unit (\<lambda>t. load_pipeline e t model_id)) (\<lambda>_.
        py_bind (log_msg INFO ''Successfully loaded model %s locally'' [AStr model_id]) (\<lambda>_.
        py_return model_id)))))))
       (\<lambda>exc.
          py_bind (log_msg EXCEPTION ''Failed to load local model: %s'' [AExn exc]) (\<lambda>_.
          py_raise
            (ProviderAPIError PROVIDER_NAME
               (''Failed to load local model: '' @ py_str_exn e exc) exc)))"

text \<open>\<open>d.pop(k)\<close> with no default raises \<open>KeyError\<close> when the key is absent.\<close>

definition dict_pop_required :: "pydict \<Rightarrow> string \<Rightarrow> (pyval \<times> pydict, 's) py" where
  "dict_pop_required d k =
     (case map_of d k of
        None \<Rightarrow> py_raise (PyException ''KeyError'' k)
      | Some v \<Rightarrow> py_return (v, AList.delete k d))"

text \<open>
  The text a local pipeline generated: the \<open>generated_text\<close> of the first dictionary of a
  non-empty list, without the prompt when it starts with it; \<open>str(result)\<close> otherwise.
\<close>

definition extract_generated_text :: "pyval \<Rightarrow> pipe_out \<Rightarrow> (string, 's) py" where
  "extract_generated_text prompt result =
     (case result of
        OutList (d # ds) \<Rightarrow>
          (case (case dict_get d ''generated_text'' of None \<Rightarrow> VStr [] | Some v \<Rightarrow> v) of
             VStr g \<Rightarrow>
               (case prompt of
                  VStr p \<Rightarrow>
                    py_return (if prefix p g then py_lstrip (drop (length p) g) else g)
                | _ \<Rightarrow> py_raise (PyException ''TypeError'' ''startswith''))
           | _ \<Rightarrow> py_raise (PyException ''AttributeError'' ''startswith''))
      | OutList [] \<Rightarrow> py_return ''[]''
      | OutOther s \<Rightarrow> py_return s)"

definition make_raw_output :: "string \<Rightarrow> string \<Rightarrow> int \<Rightarrow> int \<Rightarrow> raw_output" where
  "make_raw_output text model_id pt ct =
     \<lparr>generated_text = text, model = model_id,
      usage = Some \<lparr>u_prompt_tokens = Some pt, u_completion_tokens = Some ct\<rparr>\<rparr>"

definition local_inference ::
  "env \<Rightarrow> model_info \<Rightarrow> string \<Rightarrow> pydict \<Rightarrow> (string \<times> raw_output, world) py" where
  "local_inference e mi model_id hf_kwargs =
     py_bind
       (\<lambda>w. case local_model w of
               Some m \<Rightarrow> (Inr m, w)
             | None \<Rightarrow>
                 py_bind (load_local_model e model_id)
                   (\<lambda>m w'. (Inr m, w'\<lparr>local_model := Some m\<rparr>)) w)
       (\<lambda>pipe.
        py_bind (dict_pop_required hf_kwargs ''prompt'') (\<lambda>(prompt, kw1).
        case dict_pop kw1 ''max_new_tokens'' (VInt 512) of (max_new_tokens, kw2) \<Rightarrow>
        case dict_pop kw2 ''temperature'' (VFloat (7 / 10)) of (temperature, kw3) \<Rightarrow>
        py_bind
          (\<lambda>w. ext_call (\<lambda>t. run_pipeline e t pipe prompt max_new_tokens temperature kw3)
                 (w\<lparr>local_calls := local_calls w @ [(prompt, max_new_tokens, temperature, kw3)]\<rparr>))
          (\<lambda>result.
        py_bind (extract_generated_text prompt result) (\<lambda>text.
        py_bind (count_tokens e mi prompt) (\<lambda>pt.
        py_bind (count_tokens e mi (VStr text)) (\<lambda>ct.
        py_return (text, make_raw_output text model_id pt ct)))))))"

definition remote_inference ::
  "env \<Rightarrow> model_info \<Rightarrow> string \<Rightarrow> pydict \<Rightarrow> (string \<times> raw_output, world) py" where
  "remote_inference e mi model_id hf_kwargs =
     (case dict_pop hf_kwargs ''timeout'' (VInt 30) of (timeout, kw1) \<Rightarrow>
      py_bind (dict_pop_required kw1 ''prompt'') (\<lambda>(prompt, kw2).
      py_bind
        (\<lambda>w. ext_call (\<lambda>t. text_generation e t prompt model_id kw2)
               (w\<lparr>remote_calls := remote_calls w @ [(prompt, model_id, kw2)]\<rparr>))
        (\<lambda>response.
      py_bind (count_tokens e mi prompt) (\<lambda>pt.
      py_bind (count_tokens e mi (VStr response)) (\<lambda>ct.
      py_return (response, make_raw_output response model_id pt ct))))))"

text \<open>
  The two handlers of \<open>forward\<close>: an \<open>HTTPError\<close> is raised again as it is, after an error
  record when its status is in the server range (reading the status of an error that
  has no response raises \<open>AttributeError\<close>); any other exception is wrapped.
\<close>

definition handle_forward_error :: "env \<Rightarrow> exn \<Rightarrow> ('a, world) py" where
  "handle_forward_error e exc =
     (case exc of
        HTTPError st txt \<Rightarrow>
          (case st of
             None \<Rightarrow> py_raise (PyException ''AttributeError'' ''status_code'')
           | Some code \<Rightarrow>
               if 500 \<le> code \<and> code < 600
               then py_bind (log_msg ERROR ''HuggingFace server error: %s'' [AExn exc])
                      (\<lambda>_. py_raise exc)
               else py_raise exc)
      | _ \<Rightarrow>
          py_bind (log_msg EXCEPTION ''Unexpected error in HuggingFaceModel.forward()'' [])
            (\<lambda>_. py_raise
                   (ProviderAPIError PROVIDER_NAME (''API error: '' @ py_str_exn e exc) exc)))"

text \<open>The body of \<open>forward\<close>, as one attempt of the retry policy runs it.\<close>

definition forward_body :: "env \<Rightarrow> model_info \<Rightarrow> chat_request \<Rightarrow> (chat_response, world) py" where
  "forward_body e mi request =
     (case req_prompt request of
        None \<Rightarrow>
          py_raise
            (InvalidPromptError ''HuggingFace prompt cannot be empty.'' PROVIDER_NAME (mi_name mi))
      | Some p \<Rightarrow>
          if p = [] then
            py_raise
              (InvalidPromptError ''HuggingFace prompt cannot be empty.'' PROVIDER_NAME
                 (mi_name mi))
          else
            py_bind
              (log_msg INFO ''HuggingFace forward invoked''
                 [AStr PROVIDER_NAME, AStr (mi_name mi), AInt (int (length p))]) (\<lambda>_.
            py_bind (\<lambda>w. (HuggingFaceChatParameters p request, w)) (\<lambda>hf_parameters.
            case dict_pop
                   (merge_provider_params (to_huggingface_kwargs e hf_parameters)
                      (req_provider_params request))
                   ''use_local_model'' (VBool False) of
              (use_local, hf_kwargs) \<Rightarrow>
            py_bind (normalize_huggingface_model_name e (mi_name mi)) (\<lambda>model_id.
            py_try
              (py_bind
                 (if truthy use_local then local_inference e mi model_id hf_kwargs
                  else remote_inference e mi model_id hf_kwargs)
                 (\<lambda>(text, raw).
                    py_bind (\<lambda>w. (calculate_usage mi raw, w)) (\<lambda>usage_stats.
                    py_return
                      \<lparr>resp_data = text, resp_raw_output = raw,
                       resp_usage = usage_stats\<rparr>)))
              (handle_forward_error e)))))"

section \<open>The retry policy\<close>

text \<open>
  \<open>@retry(wait=wait_exponential(min=1, max=10), stop=stop_after_attempt(3), reraise=True)\<close>
  of the tenacity library: attempts are numbered from 1; an attempt that raises any
  exception is followed by another one, after a wait, unless the stop condition holds,
  in which case the exception of the last attempt is raised.
\<close>

definition wait_exponential :: "nat \<Rightarrow> nat" where
  "wait_exponential attempt_number = max 1 (min (2 ^ (attempt_number - 1)) 10)"

definition stop_after_attempt :: "nat \<Rightarrow> bool" where
  "stop_after_attempt attempt_number = (3 \<le> attempt_number)"

function retry :: "('a, world) py \<Rightarrow> nat \<Rightarrow> ('a, world) py" where
  "retry f attempt_number w =
     (case f (w\<lparr>attempts := attempt_number\<rparr>) of
        (Inr r, w') \<Rightarrow> (Inr r, w')
      | (Inl exc, w') \<Rightarrow>
          if stop_after_attempt attempt_number then (Inl exc, w')
          else retry f (Suc attempt_number)
                 (w'\<lparr>sleeps := sleeps w' @ [wait_exponential attempt_number]\<rparr>))"
  by pat_completeness auto
termination
  by (relation "measure (\<lambda>(f, n, w). 3 - n)") (auto simp: stop_after_attempt_def)

declare retry.simps [simp del]

definition forward :: "env \<Rightarrow> model_info \<Rightarrow> chat_request \<Rightarrow> (chat_response, world) py" where
  "forward e mi request = retry (forward_body e mi request) 1"

section \<open>The ensemble operator\<close>

text \<open>
  Modelled from the spec: \<open>LMModule\<close> and \<open>Specification.render_prompt\<close> are not among the
  sources. A module is called with a prompt and returns a text or raises; rendering takes
  the query and returns the prompt or raises. Both may read and change the state \<open>'s\<close>
  outside the operator. The operator's own state adds the sequence of calls it made.
\<close>

datatype event = Rendered string | Invoked nat string | Returned nat

record 's ens_world =
  events :: "event list"
  ext :: 's

type_synonym 's lm_module = "string \<Rightarrow> (string, 's) py"

record ensemble_outputs =
  responses :: "string list"

definition on_ext :: "event list \<Rightarrow> ('a, 's) py \<Rightarrow> event list \<Rightarrow> ('a, 's ens_world) py" where
  "on_ext before m after w =
     (case m (ext w) of
        (r, s') \<Rightarrow>
          (r, w\<lparr>events := events w @ before @ (case r of Inl _ \<Rightarrow> [] | Inr _ \<Rightarrow> after),
                ext := s'\<rparr>))"

text \<open>
  \<open>[lm(prompt=rendered_prompt) for lm in self.lm_modules]\<close>, the modules numbered from
  \<open>i\<close>: each call returns before the next one starts, and the first exception ends the
  comprehension.
\<close>

fun call_modules :: "nat \<Rightarrow> 's lm_module list \<Rightarrow> string \<Rightarrow> (string list, 's ens_world) py" where
  "call_modules i [] p = py_return []"
| "call_modules i (lm # lms) p =
     py_bind (on_ext [Invoked i p] (lm p) [Returned i]) (\<lambda>r.
     py_bind (call_modules (Suc i) lms p) (\<lambda>rs.
     py_return (r # rs)))"

definition ensemble_forward ::
  "(string \<Rightarrow> (string, 's) py) \<Rightarrow> 's lm_module list \<Rightarrow> string \<Rightarrow> (ensemble_outputs, 's ens_world) py" where
  "ensemble_forward render_prompt lm_modules query =
     py_bind (on_ext [Rendered query] (render_prompt query) []) (\<lambda>rendered_prompt.
     py_bind (call_modules 0 lm_modules rendered_prompt) (\<lambda>rs.
     py_return \<lparr>responses = rs\<rparr>))"

section \<open>Stub collaborators for concrete runs\<close>

text \<open>
  A catalog that knows every model, a tokenizer that yields one token per word after a
  start token, and a backend that raises a 503 on every call made before tick \<open>k\<close> and
  answers afterwards.
\<close>

definition stub_encode :: "pyval \<Rightarrow> exn + nat list" where
  "stub_encode text =
     (case text of
        VStr s \<Rightarrow> Inr (0 # map length (py_split s))
      | _ \<Rightarrow> Inl (PyException ''TypeError'' ''encode''))"

definition stub_env :: "nat \<Rightarrow> env" where
  "stub_env k =
     \<lparr>build_prompt = (\<lambda>c p. case c of None \<Rightarrow> p | Some c' \<Rightarrow> c' @ [CHR 0x0A, CHR 0x0A] @ p),
      hub_model_info = (\<lambda>t n. None),
      from_pretrained = (\<lambda>t m. None),
      encode = (\<lambda>t tok text. stub_encode text),
      import_transformers = (\<lambda>t. None),
      load_pipeline = (\<lambda>t m. None),
      run_pipeline = (\<lambda>t pipe prompt mx temp kw. Inr (OutList [])),
      text_generation =
        (\<lambda>t prompt m kw.
           if t < k then Inl (HTTPError (Some 503) ''503 Server Error'')
           else Inr ''Because networks fail.''),
      exn_str = (\<lambda>exc. [])\<rparr>"

text \<open>A catalog and a tokenizer loader that are out of reach.\<close>

definition offline_env :: env where
  "offline_env =
     (stub_env 0)
       \<lparr>hub_model_info := (\<lambda>t n. Some (PyException ''ConnectionError'' ''offline'')),
        from_pretrained := (\<lambda>t m. Some (PyException ''OSError'' ''offline''))\<rparr>"

definition stub_model :: model_info where
  "stub_model =
     \<lparr>mi_name = ''huggingface:gpt2'', input_cost_per_thousand = rnd64 (1 / 1000),
      output_cost_per_thousand = rnd64 (2 / 1000)\<rparr>"

definition fresh_world :: world where
  "fresh_world =
     \<lparr>tick = 0, tokenizer = None, local_model = None, logs = [], remote_calls = [],
      local_calls = [], sleeps = [], attempts = 0\<rparr>"

definition stub_request :: chat_request where
  "stub_request =
     \<lparr>req_prompt = Some ''Explain retries'', req_context = None, req_temperature = 7 / 10,
      req_max_tokens = None, req_timeout = None, req_provider_params = []\<rparr>"

text \<open>
  Provider parameters that override \<open>max_new_tokens\<close> with a negative value, leave
  \<open>top_p\<close> and \<open>temperature\<close> unset and add a seed.
\<close>

definition override_params :: pydict where
  "override_params =
     [(''max_new_tokens'', VInt (- 5)), (''top_p'', VNone), (''temperature'', VNone),
      (''seed'', VInt 7)]"

text \<open>
  A computation keeps the retry policy's bookkeeping when it changes neither the list of
  waits nor the attempt number.
\<close>

definition keeps_retry :: "('a, world) py \<Rightarrow> bool" where
  "keeps_retry m = (\<forall>w. sleeps (snd (m w)) = sleeps w \<and> attempts (snd (m w)) = attempts w)"

text \<open>
  Stub modules for concrete runs of the ensemble, over a state that lists the modules
  that have returned so far: one that answers with its name, one that answers with its
  name followed by the names of the modules that returned before it was called, and one
  that raises. The stub renderer prefixes the query.
\<close>

definition const_lm :: "string \<Rightarrow> string list lm_module" where
  "const_lm name p s = (Inr name, s @ [name])"

definition observing_lm :: "string \<Rightarrow> string list lm_module" where
  "observing_lm name p s = (Inr (name @ concat s), s @ [name])"

definition failing_lm :: "string list lm_module" where
  "failing_lm p s = (Inl (PyException ''RuntimeError'' ''down''), s)"

definition stub_render :: "string \<Rightarrow> (string, string list) py" where
  "stub_render q s = (Inr (''Q: '' @ q), s)"

definition fresh_ens_world :: "string list ens_world" where
  "fresh_ens_world = \<lparr>events = [], ext = []\<rparr>"

text \<open>The events of a run in which the first \<open>k\<close> modules, numbered from \<open>i\<close>, returned.\<close>

definition returned_calls :: "nat \<Rightarrow> nat \<Rightarrow> string \<Rightarrow> event list" where
  "returned_calls i k p = concat (map (\<lambda>j. [Invoked j p, Returned j]) [i..<i + k])"

section \<open>Model-name normalization recovers from a failed lookup\<close>

lemma normalize_model_name_eq:
  "normalize_huggingface_model_name e raw_name w =
     (case hub_model_info e (tick w) (strip_provider_prefix raw_name) of
        None \<Rightarrow> (Inr (strip_provider_prefix raw_name), w\<lparr>tick := Suc (tick w)\<rparr>)
      | Some exc \<Rightarrow>
          (Inr default_model,
           w\<lparr>tick := Suc (tick w),
             logs := logs w @
               [LogRecord WARNING model_not_found_warning
                  [AStr (strip_provider_prefix raw_name), AStr default_model, AExn exc]]\<rparr>))"
  by (simp add: normalize_huggingface_model_name_def py_try_def py_bind_def ext_unit_def
      py_return_def log_msg_def Let_def split: option.splits)

lemma offline_lookup_fails:
  "hub_model_info offline_env (tick fresh_world) (strip_provider_prefix ''huggingface:gpt2'')
     = Some (PyException ''ConnectionError'' ''offline'')"
  by (simp add: offline_env_def stub_env_def)

lemma strip_gpt2: "strip_provider_prefix ''huggingface:gpt2'' = ''gpt2''"
  by (simp add: strip_provider_prefix_def)

lemma stub_lookup_succeeds: "hub_model_info (stub_env k) t n = None"
  by (simp add: stub_env_def)

lemma strip_unprefixed: "strip_provider_prefix ''org/model'' = ''org/model''"
  by (simp add: strip_provider_prefix_def)

text \<open>
  C9. For every raw model identifier, whatever the catalog answers and in every state,
  \<open>_normalize_huggingface_model_name\<close> returns a name and never raises. It queries the
  catalog once, with the identifier stripped of a leading \<open>huggingface:\<close>. When the
  lookup raises, it returns the fixed default \<open>mistralai/Mistral-7B-Instruct-v0.2\<close> and
  appends one warning record naming the stripped identifier, the default and the
  exception; when the lookup succeeds it returns the stripped identifier and logs nothing.
\<close>

theorem normalize_model_name_recovers:
  "(\<exists>m w'. normalize_huggingface_model_name e raw_name w = (Inr m, w')) \<and>
   (\<forall>exc. hub_model_info e (tick w) (strip_provider_prefix raw_name) = Some exc \<longrightarrow>
      normalize_huggingface_model_name e raw_name w =
        (Inr default_model,
         w\<lparr>tick := Suc (tick w),
           logs := logs w @
             [LogRecord WARNING model_not_found_warning
                [AStr (strip_provider_prefix raw_name), AStr default_model, AExn exc]]\<rparr>)) \<and>
   (hub_model_info e (tick w) (strip_provider_prefix raw_name) = None \<longrightarrow>
      normalize_huggingface_model_name e raw_name w =
        (Inr (strip_provider_prefix raw_name), w\<lparr>tick := Suc (tick w)\<rparr>)) \<and>
   strip_provider_prefix (''huggingface:'' @ n) = n \<and>
   (\<not> prefix ''huggingface:'' raw_name \<longrightarrow> strip_provider_prefix raw_name = raw_name) \<and>
   default_model = ''mistralai/Mistral-7B-Instruct-v0.2''"
  by (simp add: normalize_model_name_eq strip_provider_prefix_def default_model_def
      split: option.splits)

theorem normalize_model_name_recovers_witness:
  "hub_model_info offline_env (tick fresh_world) (strip_provider_prefix ''huggingface:gpt2'')
     = Some (PyException ''ConnectionError'' ''offline'') \<and>
   normalize_huggingface_model_name offline_env ''huggingface:gpt2'' fresh_world =
     (Inr ''mistralai/Mistral-7B-Instruct-v0.2'',
      fresh_world\<lparr>tick := Suc (tick fresh_world),
        logs := logs fresh_world @ [LogRecord WARNING model_not_found_warning
                  [AStr ''gpt2'', AStr ''mistralai/Mistral-7B-Instruct-v0.2'',
                   AExn (PyException ''ConnectionError'' ''offline'')]]\<rparr>) \<and>
   hub_model_info (stub_env 0) (tick fresh_world) (strip_provider_prefix ''org/model'') = None \<and>
   normalize_huggingface_model_name (stub_env 0) ''org/model'' fresh_world =
     (Inr ''org/model'', fresh_world\<lparr>tick := Suc (tick fresh_world)\<rparr>)"
proof -
  note a = normalize_model_name_recovers
             [of offline_env "''huggingface:gpt2''" fresh_world "''gpt2''"]
  note b = normalize_model_name_recovers
             [of "stub_env 0" "''org/model''" fresh_world "''gpt2''"]
  note a' = a [THEN conjunct2, THEN conjunct1, THEN spec, THEN mp, OF offline_lookup_fails]
  note b' = b [THEN conjunct2, THEN conjunct2, THEN conjunct1, THEN mp, OF stub_lookup_succeeds]
  from a have d: "default_model = ''mistralai/Mistral-7B-Instruct-v0.2''" by blast
  show ?thesis
    using a' b' offline_lookup_fails stub_lookup_succeeds [of 0]
    by (simp add: strip_gpt2 strip_unprefixed d)
qed

section \<open>Token counting\<close>

lemma count_tokens_str_eq:
  "count_tokens e mi (VStr s) w =
     (case count_tokens_try e mi (VStr s) w of
        (Inr n, w') \<Rightarrow> (Inr n, w')
      | (Inl exc, w') \<Rightarrow>
          (Inr (int (length (py_split s))),
           w'\<lparr>logs := logs w' @ [LogRecord WARNING count_tokens_warning [AExn exc]]\<rparr>))"
  by (simp add: count_tokens_def py_try_def py_bind_def py_return_def log_msg_def
      split: prod.splits sum.splits)

lemma count_tokens_try_eq:
  "count_tokens_try e mi text w =
     (case get_tokenizer e mi w of
        (Inl exc, w0) \<Rightarrow> (Inl exc, w0)
      | (Inr tok, w0) \<Rightarrow>
          (case encode e (tick w0) tok text of
             Inl exc \<Rightarrow> (Inl exc, w0\<lparr>tick := Suc (tick w0)\<rparr>)
           | Inr toks \<Rightarrow> (Inr (int (length toks)), w0\<lparr>tick := Suc (tick w0)\<rparr>)))"
  by (simp add: count_tokens_try_def py_bind_def py_return_def ext_call_def
      split: prod.splits sum.splits)

text \<open>
  C6. For every text, the empty string included, in every state and whatever the
  tokenizer does, \<open>_count_tokens\<close> returns a non-negative integer and never raises. When
  the tokenizer is available (cached, or loaded now) and encodes the text, the result is
  the number of tokens it returned and nothing is logged. When loading the tokenizer or
  encoding raises, the result is the number of whitespace-delimited words of the text and
  one warning record carrying the exception is appended to the log.
\<close>

theorem count_tokens_never_raises:
  "(\<exists>n w'. count_tokens e mi (VStr s) w = (Inr n, w') \<and> 0 \<le> n) \<and>
   (\<forall>tok w0 toks.
      get_tokenizer e mi w = (Inr tok, w0) \<and> encode e (tick w0) tok (VStr s) = Inr toks \<longrightarrow>
      count_tokens e mi (VStr s) w = (Inr (int (length toks)), w0\<lparr>tick := Suc (tick w0)\<rparr>)) \<and>
   (\<forall>exc w0.
      get_tokenizer e mi w = (Inl exc, w0) \<longrightarrow>
      count_tokens e mi (VStr s) w =
        (Inr (int (length (py_split s))),
         w0\<lparr>logs := logs w0 @ [LogRecord WARNING count_tokens_warning [AExn exc]]\<rparr>)) \<and>
   (\<forall>tok w0 exc.
      get_tokenizer e mi w = (Inr tok, w0) \<and> encode e (tick w0) tok (VStr s) = Inl exc \<longrightarrow>
      count_tokens e mi (VStr s) w =
        (Inr (int (length (py_split s))),
         w0\<lparr>tick := Suc (tick w0),
            logs := logs w0 @ [LogRecord WARNING count_tokens_warning [AExn exc]]\<rparr>)) \<and>
   (\<forall>tok. tokenizer w = Some tok \<longrightarrow> get_tokenizer e mi w = (Inr tok, w)) \<and>
   py_split [] = []"
proof -
  have "\<exists>n w'. count_tokens e mi (VStr s) w = (Inr n, w') \<and> 0 \<le> n"
    by (cases "count_tokens_try e mi (VStr s) w")
       (auto simp: count_tokens_str_eq count_tokens_try_eq split: prod.splits sum.splits)
  moreover have "\<forall>tok. tokenizer w = Some tok \<longrightarrow> get_tokenizer e mi w = (Inr tok, w)"
    by (simp add: get_tokenizer_def)
  moreover have "py_split [] = []" by (simp add: py_split_def)
  ultimately show ?thesis
    by (simp add: count_tokens_str_eq count_tokens_try_eq)
qed

lemma stub_tokenizer_loads:
  "get_tokenizer (stub_env 0) stub_model fresh_world =
     (Inr ''gpt2'', fresh_world\<lparr>tick := 2, tokenizer := Some ''gpt2''\<rparr>)"
  by (simp add: get_tokenizer_def fresh_world_def stub_env_def stub_model_def py_bind_def
      ext_unit_def normalize_model_name_eq strip_gpt2)

lemma stub_encode_prompt:
  "encode (stub_env 0) t tok (VStr ''Explain retries'') = Inr [0, 7, 7]"
  by (simp add: stub_env_def stub_encode_def py_split_def py_isspace_def)

lemma offline_tokenizer_fails:
  "get_tokenizer offline_env stub_model fresh_world =
     (Inl (PyException ''OSError'' ''offline''),
      fresh_world\<lparr>tick := 2,
        logs := [LogRecord WARNING model_not_found_warning
                  [AStr ''gpt2'', AStr default_model,
                   AExn (PyException ''ConnectionError'' ''offline'')]]\<rparr>)"
  by (simp add: get_tokenizer_def fresh_world_def stub_env_def offline_env_def stub_model_def
      py_bind_def ext_unit_def normalize_model_name_eq strip_gpt2)

lemma split_prompt: "py_split ''Explain retries'' = [''Explain'', ''retries'']"
  by (simp add: py_split_def py_isspace_def)

theorem count_tokens_never_raises_witness:
  "get_tokenizer (stub_env 0) stub_model fresh_world =
     (Inr ''gpt2'', fresh_world\<lparr>tick := 2, tokenizer := Some ''gpt2''\<rparr>) \<and>
   encode (stub_env 0) 2 ''gpt2'' (VStr ''Explain retries'') = Inr [0, 7, 7] \<and>
   count_tokens (stub_env 0) stub_model (VStr ''Explain retries'') fresh_world =
     (Inr 3, fresh_world\<lparr>tick := 3, tokenizer := Some ''gpt2''\<rparr>) \<and>
   count_tokens offline_env stub_model (VStr ''Explain retries'') fresh_world =
     (Inr 2,
      fresh_world\<lparr>tick := 2,
        logs := [LogRecord WARNING model_not_found_warning
                  [AStr ''gpt2'', AStr default_model,
                   AExn (PyException ''ConnectionError'' ''offline'')],
                 LogRecord WARNING count_tokens_warning
                  [AExn (PyException ''OSError'' ''offline'')]]\<rparr>)"
proof -
  note a = count_tokens_never_raises [of "stub_env 0" stub_model "''Explain retries''" fresh_world]
  note b = count_tokens_never_raises [of offline_env stub_model "''Explain retries''" fresh_world]
  have enc: "encode (stub_env 0) (tick (fresh_world\<lparr>tick := 2, tokenizer := Some ''gpt2''\<rparr>))
               ''gpt2'' (VStr ''Explain retries'') = Inr [0, 7, 7]"
    by (rule stub_encode_prompt)
  note a' = a [THEN conjunct2, THEN conjunct1, THEN spec, THEN spec, THEN spec, THEN mp,
               OF conjI, OF stub_tokenizer_loads enc]
  note b' = b [THEN conjunct2, THEN conjunct2, THEN conjunct1, THEN spec, THEN spec, THEN mp,
               OF offline_tokenizer_fails]
  show ?thesis
    using a' b' stub_tokenizer_loads stub_encode_prompt [of 2 "''gpt2''"]
    by (simp add: split_prompt fresh_world_def)
qed

section \<open>Parameter normalization keeps a positive token limit\<close>

text \<open>
  C4. For every request whose \<open>max_tokens\<close> is absent or positive (and whatever its
  prompt), constructing \<open>HuggingFaceChatParameters\<close> succeeds with \<open>max_tokens\<close> equal to the
  requested value, or to 512 when it was absent, and greater than zero; and
  \<open>to_huggingface_kwargs\<close> stores that value under the backend key \<open>max_new_tokens\<close> (there
  is no key \<open>max_tokens\<close>), the request's temperature under \<open>temperature\<close> and the
  request's timeout (\<open>None\<close> when unset) under \<open>timeout\<close>.
\<close>

theorem normalize_max_tokens:
  "req_max_tokens request = None \<or> (\<exists>n. req_max_tokens request = Some n \<and> 0 < n) \<Longrightarrow>
   \<exists>ps. HuggingFaceChatParameters p request = Inr ps \<and>
        par_max_tokens ps = (case req_max_tokens request of None \<Rightarrow> 512 | Some n \<Rightarrow> n) \<and>
        0 < par_max_tokens ps \<and>
        dict_get (to_huggingface_kwargs e ps) ''max_new_tokens'' = Some (VInt (par_max_tokens ps)) \<and>
        dict_get (to_huggingface_kwargs e ps) ''max_tokens'' = None \<and>
        dict_get (to_huggingface_kwargs e ps) ''temperature'' =
          Some (VFloat (req_temperature request)) \<and>
        dict_get (to_huggingface_kwargs e ps) ''timeout'' =
          Some (case req_timeout request of None \<Rightarrow> VNone | Some t \<Rightarrow> VInt t) \<and>
        dict_get (to_huggingface_kwargs e ps) ''prompt'' =
          Some (VStr (build_prompt e (req_context request) p))"
  by (auto simp: HuggingFaceChatParameters_def ensure_positive_def enforce_default_if_none_def
      to_huggingface_kwargs_def dict_get_def)

theorem normalize_max_tokens_witness:
  "req_max_tokens stub_request = None \<and>
   (\<exists>ps. HuggingFaceChatParameters ''Explain retries'' stub_request = Inr ps \<and>
         par_max_tokens ps = 512 \<and>
         dict_get (to_huggingface_kwargs (stub_env 0) ps) ''max_new_tokens'' = Some (VInt 512)) \<and>
   req_max_tokens (stub_request\<lparr>req_max_tokens := Some 64, req_timeout := Some 5\<rparr>) = Some 64 \<and>
   (\<exists>ps. HuggingFaceChatParameters ''Explain retries''
           (stub_request\<lparr>req_max_tokens := Some 64, req_timeout := Some 5\<rparr>) = Inr ps \<and>
         par_max_tokens ps = 64 \<and>
         dict_get (to_huggingface_kwargs (stub_env 0) ps) ''max_new_tokens'' = Some (VInt 64) \<and>
         dict_get (to_huggingface_kwargs (stub_env 0) ps) ''temperature'' = Some (VFloat (7 / 10)) \<and>
         dict_get (to_huggingface_kwargs (stub_env 0) ps) ''timeout'' = Some (VInt 5))"
proof -
  have h1: "req_max_tokens stub_request = None \<or>
            (\<exists>n. req_max_tokens stub_request = Some n \<and> 0 < n)"
    by (simp add: stub_request_def)
  have h2: "req_max_tokens (stub_request\<lparr>req_max_tokens := Some 64, req_timeout := Some 5\<rparr>) = None \<or>
            (\<exists>n. req_max_tokens (stub_request\<lparr>req_max_tokens := Some 64, req_timeout := Some 5\<rparr>)
                   = Some n \<and> 0 < n)"
    by simp
  from normalize_max_tokens [OF h1, of "''Explain retries''" "stub_env 0"]
  obtain ps1 where a: "HuggingFaceChatParameters ''Explain retries'' stub_request = Inr ps1"
    and a1: "par_max_tokens ps1 = (case req_max_tokens stub_request of None \<Rightarrow> 512 | Some n \<Rightarrow> n)"
    and a2: "dict_get (to_huggingface_kwargs (stub_env 0) ps1) ''max_new_tokens'' =
               Some (VInt (par_max_tokens ps1))"
    by blast
  from normalize_max_tokens [OF h2, of "''Explain retries''" "stub_env 0"]
  obtain ps2 where b: "HuggingFaceChatParameters ''Explain retries''
           (stub_request\<lparr>req_max_tokens := Some 64, req_timeout := Some 5\<rparr>) = Inr ps2"
    and b1: "par_max_tokens ps2 =
       (case req_max_tokens (stub_request\<lparr>req_max_tokens := Some 64, req_timeout := Some 5\<rparr>)
        of None \<Rightarrow> 512 | Some n \<Rightarrow> n)"
    and b2: "dict_get (to_huggingface_kwargs (stub_env 0) ps2) ''max_new_tokens'' =
               Some (VInt (par_max_tokens ps2))"
    and b3: "dict_get (to_huggingface_kwargs (stub_env 0) ps2) ''temperature'' =
          Some (VFloat (req_temperature (stub_request\<lparr>req_max_tokens := Some 64, req_timeout := Some 5\<rparr>)))"
    and b4: "dict_get (to_huggingface_kwargs (stub_env 0) ps2) ''timeout'' =
          Some (case req_timeout (stub_request\<lparr>req_max_tokens := Some 64, req_timeout := Some 5\<rparr>)
                of None \<Rightarrow> VNone | Some t \<Rightarrow> VInt t)"
    by blast
  have c1: "req_max_tokens stub_request = None" by (simp add: stub_request_def)
  have c2: "req_temperature stub_request = 7 / 10" by (simp add: stub_request_def)
  from a1 c1 have a1': "par_max_tokens ps1 = 512" by simp
  from b1 have b1': "par_max_tokens ps2 = 64" by simp
  from b3 c2 have b3': "dict_get (to_huggingface_kwargs (stub_env 0) ps2) ''temperature'' =
          Some (VFloat (7 / 10))" by simp
  from b4 have b4': "dict_get (to_huggingface_kwargs (stub_env 0) ps2) ''timeout'' = Some (VInt 5)"
    by simp
  show ?thesis
    using a a1' a2 b b1' b2 b3' b4' c1 by simp
qed

section \<open>Usage and cost\<close>

lemma floor_numeral_fraction:
  "\<lfloor>(numeral a :: rat) / numeral b\<rfloor> = numeral a div numeral b"
  by (metis floor_divide_of_int_eq of_int_numeral)

lemma ceiling_numeral_fraction:
  "\<lceil>(numeral a :: rat) / numeral b\<rceil> = - ((- numeral a) div numeral b)"
  by (metis ceiling_divide_eq_div of_int_numeral)

lemma bits_numeral:
  "bits 0 = 0" "bits (Suc 0) = Suc 0" "bits (numeral k) = Suc (bits (numeral k div 2))"
  by (simp_all add: bits.simps [of 0] bits.simps [of "Suc 0"] bits.simps [of "numeral k"])

lemmas float_eval = rnd64_def ilog2_def pow2_def round_half_even_def bits_numeral Let_def
  float_of_int_def true_div_1000_def py_round_def floor_numeral_fraction
  ceiling_numeral_fraction

lemma bits_bounds: "0 < n \<Longrightarrow> 2 ^ (bits n - 1) \<le> n \<and> n < 2 ^ bits n"
proof (induction n rule: bits.induct)
  case (1 n)
  show ?case
  proof (cases "n div 2 = 0")
    case True
    with "1.prems" have "n = 1" by presburger
    then show ?thesis by (simp add: bits_numeral)
  next
    case False
    with "1.IH" "1.prems" have ih: "2 ^ (bits (n div 2) - 1) \<le> n div 2" "n div 2 < 2 ^ bits (n div 2)"
      by simp_all
    from False have pos: "0 < bits (n div 2)" by (simp add: bits.simps [of "n div 2"])
    have b: "bits n = Suc (bits (n div 2))" using "1.prems" by (simp add: bits.simps [of n])
    from pos obtain m where m: "bits (n div 2) = Suc m" by (cases "bits (n div 2)") auto
    from ih m have "2 * 2 ^ m \<le> 2 * (n div 2)" "2 * (n div 2) + 1 < 2 * 2 ^ Suc m"
      by simp_all
    then have "2 ^ Suc m \<le> n" "n < 2 ^ Suc (Suc m)"
      by simp_all
    with b m show ?thesis by simp
  qed
qed

lemma round_half_even_of_int: "round_half_even (of_int m) = m"
  by (simp add: round_half_even_def)

lemma round_half_even_ge: "of_int k \<le> y \<Longrightarrow> k \<le> round_half_even y"
proof -
  assume "of_int k \<le> y"
  then have "k \<le> \<lfloor>y\<rfloor>" by (simp add: le_floor_iff)
  then show ?thesis by (auto simp: round_half_even_def Let_def)
qed

lemma ilog2_of_int: "n \<noteq> 0 \<Longrightarrow> ilog2 (of_int n) = int (bits (nat \<bar>n\<bar>)) - 1"
proof -
  assume "n \<noteq> 0"
  then have "1 \<le> \<bar>n\<bar>" by simp
  then have "(of_int 1 :: rat) \<le> of_int \<bar>n\<bar>" by (simp only: of_int_le_iff)
  then have "(1 :: rat) \<le> \<bar>of_int n\<bar>" by simp
  moreover have "\<lfloor>\<bar>of_int n :: rat\<bar>\<rfloor> = \<bar>n\<bar>"
    by (metis floor_of_int of_int_abs)
  ultimately show ?thesis by (simp add: ilog2_def)
qed

lemma float_of_int_exact:
  assumes "\<bar>n\<bar> < 2 ^ 53"
  shows "float_of_int n = Inr (Finite (of_int n))"
proof (cases "n = 0")
  case True
  then show ?thesis by (simp add: float_of_int_def rnd64_def)
next
  case False
  define m where "m = nat \<bar>n\<bar>"
  define e where "e = bits m - 1"
  from False have mpos: "0 < m" by (simp add: m_def)
  from bits_bounds [OF mpos] have lo: "2 ^ e \<le> m" by (simp add: e_def)
  from assms have "m < 2 ^ 53" by (simp add: m_def nat_less_iff)
  with lo have lt: "(2 :: nat) ^ e < 2 ^ 53" by linarith
  have e52: "e \<le> 52"
  proof (rule ccontr)
    assume "\<not> e \<le> 52"
    then have "53 \<le> e" by simp
    then have "(2 :: nat) ^ 53 \<le> 2 ^ e" by (rule power_increasing) simp
    with lt show False by linarith
  qed
  from mpos have bpos: "0 < bits m" by (simp add: bits.simps [of m])
  have il: "ilog2 (of_int n) = int e"
    using ilog2_of_int [OF False] bpos by (simp add: m_def e_def)
  define k where "k = 52 - e"
  have q: "pow2 (max (ilog2 (of_int n)) (- 1022) - 52) = 1 / 2 ^ k"
  proof (cases "e = 52")
    case True
    then show ?thesis by (simp add: il pow2_def k_def)
  next
    case False
    with e52 have "e < 52" by simp
    then have "nat (52 - int e) = 52 - e" by simp
    with \<open>e < 52\<close> show ?thesis by (simp add: il pow2_def k_def max_def)
  qed
  have r: "round_half_even (of_int n / (1 / 2 ^ k)) = n * 2 ^ k"
  proof -
    have "(of_int n :: rat) / (1 / 2 ^ k) = of_int (n * 2 ^ k)" by simp
    then show ?thesis by (simp only: round_half_even_of_int)
  qed
  have y: "(of_int (n * 2 ^ k) :: rat) * (1 / 2 ^ k) = of_int n" by simp
  have small: "\<not> pow2 1024 \<le> \<bar>of_int n :: rat\<bar>"
  proof -
    from assms have "\<bar>of_int n :: rat\<bar> < 2 ^ 53"
      by (metis of_int_abs of_int_less_numeral_power_cancel_iff)
    moreover have "(2 :: rat) ^ 53 \<le> 2 ^ 1024" by (rule power_increasing) simp_all
    ultimately show ?thesis by (simp add: pow2_def)
  qed
  from False have nz: "(of_int n :: rat) \<noteq> 0" by simp
  show ?thesis
    unfolding float_of_int_def rnd64_def Let_def q r y using nz small by simp
qed

lemma calculate_usage_eq:
  "calculate_usage mi raw =
     (case true_div_1000
             (case usage raw of None \<Rightarrow> 0
              | Some u \<Rightarrow> (case u_prompt_tokens u of None \<Rightarrow> 0 | Some n \<Rightarrow> n)) of
        Inl exc \<Rightarrow> Inl exc
      | Inr p \<Rightarrow>
          (case true_div_1000
                  (case usage raw of None \<Rightarrow> 0
                   | Some u \<Rightarrow> (case u_completion_tokens u of None \<Rightarrow> 0 | Some n \<Rightarrow> n)) of
             Inl exc \<Rightarrow> Inl exc
           | Inr c \<Rightarrow>
               Inr \<lparr>total_tokens =
                      (case usage raw of None \<Rightarrow> 0
                       | Some u \<Rightarrow> (case u_prompt_tokens u of None \<Rightarrow> 0 | Some n \<Rightarrow> n)) +
                      (case usage raw of None \<Rightarrow> 0
                       | Some u \<Rightarrow> (case u_completion_tokens u of None \<Rightarrow> 0 | Some n \<Rightarrow> n)),
                    prompt_tokens =
                      (case usage raw of None \<Rightarrow> 0
                       | Some u \<Rightarrow> (case u_prompt_tokens u of None \<Rightarrow> 0 | Some n \<Rightarrow> n)),
                    completion_tokens =
                      (case usage raw of None \<Rightarrow> 0
                       | Some u \<Rightarrow> (case u_completion_tokens u of None \<Rightarrow> 0 | Some n \<Rightarrow> n)),
                    cost_usd = py_round (fadd (fmul p (input_cost_per_thousand mi))
                                            (fmul c (output_cost_per_thousand mi))) 6\<rparr>))"
  by (cases "usage raw")
     (simp_all add: calculate_usage_def Let_def split: sum.split option.split)

lemma fdiv_1000: "\<exists>q. fdiv x (Finite 1000) = Inr q"
  by (cases x) simp_all

lemma py_round_six_places:
  "py_round x 6 = Finite v \<Longrightarrow> \<exists>k :: int. Finite v = rnd64 (of_int k / 1000000)"
proof (cases x)
  case (Finite u)
  assume "py_round x 6 = Finite v"
  with Finite have "Finite v = rnd64 (of_int (round_half_even (u * 10 ^ 6)) / 10 ^ 6)"
    by (simp add: py_round_def)
  then show ?thesis by auto
qed (simp_all add: py_round_def)

text \<open>
  C3, as amended. \<open>calculate_usage\<close> is a function of the raw output and the cost
  schedule. It reads the prompt and completion token counts from the usage entry, each 0
  when the entry or the count is absent, and an absent entry never makes it fail. When
  both counts convert to a float, as every count of magnitude below \<open>2 ^ 53\<close> does
  (exactly), it returns the two counts, their sum as \<open>total_tokens\<close>, and as \<open>cost_usd\<close> the
  float \<open>round(prompt_tokens / 1000.0 * input_cost_per_thousand + completion_tokens /
  1000.0 * output_cost_per_thousand, 6)\<close>, every operation being the binary64 one; a
  finite cost is the float nearest to a multiple of one millionth. When a count is too
  large to convert to a float, \<open>calculate_usage\<close> raises that \<open>OverflowError\<close>.
\<close>

theorem calculate_usage_spec:
  "(let pt = (case usage raw of None \<Rightarrow> 0
              | Some u \<Rightarrow> (case u_prompt_tokens u of None \<Rightarrow> 0 | Some n \<Rightarrow> n));
        ct = (case usage raw of None \<Rightarrow> 0
              | Some u \<Rightarrow> (case u_completion_tokens u of None \<Rightarrow> 0 | Some n \<Rightarrow> n))
    in (\<forall>fp fc. float_of_int pt = Inr fp \<and> float_of_int ct = Inr fc \<longrightarrow>
          (\<exists>qp qc. fdiv fp (Finite 1000) = Inr qp \<and> fdiv fc (Finite 1000) = Inr qc \<and>
             calculate_usage mi raw =
               Inr \<lparr>total_tokens = pt + ct, prompt_tokens = pt, completion_tokens = ct,
                    cost_usd = py_round (fadd (fmul qp (input_cost_per_thousand mi))
                                            (fmul qc (output_cost_per_thousand mi))) 6\<rparr>)) \<and>
       (\<bar>pt\<bar> < 2 ^ 53 \<and> \<bar>ct\<bar> < 2 ^ 53 \<longrightarrow>
          float_of_int pt = Inr (Finite (of_int pt)) \<and>
          float_of_int ct = Inr (Finite (of_int ct))) \<and>
       (\<forall>exc. float_of_int pt = Inl exc \<longrightarrow> calculate_usage mi raw = Inl exc) \<and>
       (\<forall>fp exc. float_of_int pt = Inr fp \<and> float_of_int ct = Inl exc \<longrightarrow>
          calculate_usage mi raw = Inl exc) \<and>
       (\<forall>stats v. calculate_usage mi raw = Inr stats \<and> cost_usd stats = Finite v \<longrightarrow>
          (\<exists>k :: int. Finite v = rnd64 (of_int k / 1000000))))"
proof -
  define pt where "pt = (case usage raw of None \<Rightarrow> 0
              | Some u \<Rightarrow> (case u_prompt_tokens u of None \<Rightarrow> 0 | Some n \<Rightarrow> n))"
  define ct where "ct = (case usage raw of None \<Rightarrow> 0
              | Some u \<Rightarrow> (case u_completion_tokens u of None \<Rightarrow> 0 | Some n \<Rightarrow> n))"
  note eq = calculate_usage_eq [of mi raw, folded pt_def ct_def]
  have a: "\<exists>qp qc. fdiv fp (Finite 1000) = Inr qp \<and> fdiv fc (Finite 1000) = Inr qc \<and>
             calculate_usage mi raw =
               Inr \<lparr>total_tokens = pt + ct, prompt_tokens = pt, completion_tokens = ct,
                    cost_usd = py_round (fadd (fmul qp (input_cost_per_thousand mi))
                                            (fmul qc (output_cost_per_thousand mi))) 6\<rparr>"
    if "float_of_int pt = Inr fp \<and> float_of_int ct = Inr fc" for fp fc
  proof -
    from fdiv_1000 obtain qp where qp: "fdiv fp (Finite 1000) = Inr qp" by blast
    from fdiv_1000 obtain qc where qc: "fdiv fc (Finite 1000) = Inr qc" by blast
    from that qp qc have "calculate_usage mi raw =
               Inr \<lparr>total_tokens = pt + ct, prompt_tokens = pt, completion_tokens = ct,
                    cost_usd = py_round (fadd (fmul qp (input_cost_per_thousand mi))
                                            (fmul qc (output_cost_per_thousand mi))) 6\<rparr>"
      by (simp add: eq true_div_1000_def)
    with qp qc show ?thesis by blast
  qed
  have b: "float_of_int pt = Inr (Finite (of_int pt)) \<and> float_of_int ct = Inr (Finite (of_int ct))"
    if "\<bar>pt\<bar> < 2 ^ 53 \<and> \<bar>ct\<bar> < 2 ^ 53"
    using that by (simp add: float_of_int_exact)
  have c: "calculate_usage mi raw = Inl exc" if "float_of_int pt = Inl exc" for exc
    using that by (simp add: eq true_div_1000_def)
  have d: "calculate_usage mi raw = Inl exc"
    if "float_of_int pt = Inr fp \<and> float_of_int ct = Inl exc" for fp exc
  proof -
    from fdiv_1000 obtain qp where qp: "fdiv fp (Finite 1000) = Inr qp" by blast
    with that show ?thesis by (simp add: eq true_div_1000_def)
  qed
  have e: "\<exists>k :: int. Finite v = rnd64 (of_int k / 1000000)"
    if "calculate_usage mi raw = Inr stats \<and> cost_usd stats = Finite v" for stats v
  proof -
    from that obtain x where "py_round x 6 = Finite v"
      by (auto simp: eq split: sum.splits)
    then show ?thesis by (rule py_round_six_places)
  qed
  have "(\<forall>fp fc. float_of_int pt = Inr fp \<and> float_of_int ct = Inr fc \<longrightarrow>
          (\<exists>qp qc. fdiv fp (Finite 1000) = Inr qp \<and> fdiv fc (Finite 1000) = Inr qc \<and>
             calculate_usage mi raw =
               Inr \<lparr>total_tokens = pt + ct, prompt_tokens = pt, completion_tokens = ct,
                    cost_usd = py_round (fadd (fmul qp (input_cost_per_thousand mi))
                                            (fmul qc (output_cost_per_thousand mi))) 6\<rparr>)) \<and>
       (\<bar>pt\<bar> < 2 ^ 53 \<and> \<bar>ct\<bar> < 2 ^ 53 \<longrightarrow>
          float_of_int pt = Inr (Finite (of_int pt)) \<and>
          float_of_int ct = Inr (Finite (of_int ct))) \<and>
       (\<forall>exc. float_of_int pt = Inl exc \<longrightarrow> calculate_usage mi raw = Inl exc) \<and>
       (\<forall>fp exc. float_of_int pt = Inr fp \<and> float_of_int ct = Inl exc \<longrightarrow>
          calculate_usage mi raw = Inl exc) \<and>
       (\<forall>stats v. calculate_usage mi raw = Inr stats \<and> cost_usd stats = Finite v \<longrightarrow>
          (\<exists>k :: int. Finite v = rnd64 (of_int k / 1000000)))"
    using a b c d e by blast
  then show ?thesis
    unfolding Let_def pt_def ct_def .
qed

lemma stub_costs:
  "input_cost_per_thousand stub_model = rnd64 (1 / 1000)"
  "output_cost_per_thousand stub_model = rnd64 (2 / 1000)"
  by (simp_all add: stub_model_def)

lemma sixty_three_not_sixty_two: "rnd64 (63 / 1000000) \<noteq> rnd64 (62 / 1000000)"
  by (simp add: float_eval)

lemma float_of_small_ints:
  "float_of_int 0 = Inr (Finite 0)" "float_of_int 1 = Inr (Finite 1)"
  "float_of_int 3 = Inr (Finite 3)" "float_of_int 4 = Inr (Finite 4)"
  using float_of_int_exact [of 0] float_of_int_exact [of 1] float_of_int_exact [of 3]
    float_of_int_exact [of 4]
  by simp_all

lemma calculate_usage_stub:
  "calculate_usage stub_model (make_raw_output t m 3 4) =
     Inr \<lparr>total_tokens = 7, prompt_tokens = 3, completion_tokens = 4,
          cost_usd = rnd64 (11 / 1000000)\<rparr>"
  by (simp add: calculate_usage_eq make_raw_output_def true_div_1000_def stub_costs
      float_of_small_ints float_eval)

lemma big_count_overflows:
  "float_of_int (2 ^ 1024) =
     Inl (PyException ''OverflowError'' ''int too large to convert to float'')"
  by (simp add: float_eval)

theorem calculate_usage_spec_witness:
  "float_of_int 3 = Inr (Finite 3) \<and> float_of_int 4 = Inr (Finite 4) \<and>
   calculate_usage stub_model (make_raw_output ''Because networks fail.'' ''gpt2'' 3 4) =
     Inr \<lparr>total_tokens = 7, prompt_tokens = 3, completion_tokens = 4,
          cost_usd = rnd64 (11 / 1000000)\<rparr> \<and>
   float_of_int 1 = Inr (Finite 1) \<and> float_of_int 0 = Inr (Finite 0) \<and>
   calculate_usage (stub_model\<lparr>input_cost_per_thousand := Finite (1 / 16)\<rparr>)
       (make_raw_output ''x'' ''gpt2'' 1 0) =
     Inr \<lparr>total_tokens = 1, prompt_tokens = 1, completion_tokens = 0,
          cost_usd = rnd64 (63 / 1000000)\<rparr> \<and>
   rnd64 (63 / 1000000) \<noteq> rnd64 (62 / 1000000) \<and>
   calculate_usage stub_model \<lparr>generated_text = ''x'', model = ''gpt2'', usage = None\<rparr> =
     Inr \<lparr>total_tokens = 0, prompt_tokens = 0, completion_tokens = 0, cost_usd = Finite 0\<rparr>"
proof -
  note t1 = calculate_usage_spec
              [of "make_raw_output ''Because networks fail.'' ''gpt2'' 3 4" stub_model,
               unfolded Let_def, THEN conjunct1, THEN spec, THEN spec, THEN mp]
  note t2 = calculate_usage_spec
              [of "make_raw_output ''x'' ''gpt2'' 1 0"
                  "stub_model\<lparr>input_cost_per_thousand := Finite (1 / 16)\<rparr>",
               unfolded Let_def, THEN conjunct1, THEN spec, THEN spec, THEN mp]
  note t3 = calculate_usage_spec
              [of "\<lparr>generated_text = ''x'', model = ''gpt2'', usage = None\<rparr>" stub_model,
               unfolded Let_def, THEN conjunct1, THEN spec, THEN spec, THEN mp]
  have a: "calculate_usage stub_model (make_raw_output ''Because networks fail.'' ''gpt2'' 3 4) =
     Inr \<lparr>total_tokens = 7, prompt_tokens = 3, completion_tokens = 4,
          cost_usd = rnd64 (11 / 1000000)\<rparr>"
    using t1 [of "Finite 3" "Finite 4"]
    by (simp add: make_raw_output_def float_of_small_ints stub_costs float_eval)
  have b: "calculate_usage (stub_model\<lparr>input_cost_per_thousand := Finite (1 / 16)\<rparr>)
       (make_raw_output ''x'' ''gpt2'' 1 0) =
     Inr \<lparr>total_tokens = 1, prompt_tokens = 1, completion_tokens = 0,
          cost_usd = rnd64 (63 / 1000000)\<rparr>"
    using t2 [of "Finite 1" "Finite 0"]
    by (simp add: make_raw_output_def float_of_small_ints stub_costs float_eval)
  have c: "calculate_usage stub_model \<lparr>generated_text = ''x'', model = ''gpt2'', usage = None\<rparr> =
     Inr \<lparr>total_tokens = 0, prompt_tokens = 0, completion_tokens = 0, cost_usd = Finite 0\<rparr>"
    using t3 [of "Finite 0" "Finite 0"]
    by (simp add: float_of_small_ints stub_costs float_eval)
  from float_of_small_ints a b c sixty_three_not_sixty_two show ?thesis by (intro conjI)
qed

text \<open>
  A usage entry with a prompt count of \<open>2 ^ 1024\<close>: the count is an integer, and the
  true division cannot convert it to a float, so \<open>calculate_usage\<close> raises.
\<close>

theorem calculate_usage_overflows:
  "calculate_usage stub_model (make_raw_output ''x'' ''gpt2'' (2 ^ 1024) 0) =
     Inl (PyException ''OverflowError'' ''int too large to convert to float'')"
  using big_count_overflows
  by (simp add: calculate_usage_eq make_raw_output_def true_div_1000_def)

section \<open>Evaluating a run of forward on the stub collaborators\<close>

lemma stub_model_name: "mi_name stub_model = ''huggingface:gpt2''"
  by (simp add: stub_model_def)

lemmas forward_eval = forward_def retry.simps forward_body_def remote_inference_def
  handle_forward_error_def HuggingFaceChatParameters_def ensure_positive_def
  enforce_default_if_none_def to_huggingface_kwargs_def merge_provider_params_def
  dict_update_def dict_pop_def dict_pop_required_def dict_get_def py_bind_def py_return_def
  py_raise_def py_try_def log_msg_def ext_unit_def ext_call_def
  normalize_huggingface_model_name_def strip_provider_prefix_def count_tokens_def
  count_tokens_try_def get_tokenizer_def stub_env_def stub_request_def fresh_world_def
  stub_encode_def py_split_def py_isspace_def stop_after_attempt_def wait_exponential_def
  PROVIDER_NAME_def Let_def override_params_def AList.delete_eq stub_model_name
  calculate_usage_stub

section \<open>Merging the provider parameters\<close>

lemma map_of_fold_update:
  "distinct (map fst xs) \<Longrightarrow>
   map_of (fold (\<lambda>(k, v). AList.update k v) xs d) k =
     (case map_of xs k of None \<Rightarrow> map_of d k | Some v \<Rightarrow> Some v)"
proof (induction xs arbitrary: d)
  case Nil
  then show ?case by simp
next
  case (Cons x xs)
  obtain a b where x: "x = (a, b)" by (cases x)
  from Cons.prems x have na: "map_of xs a = None"
    by (simp add: map_of_eq_None_iff)
  from Cons.prems have d: "distinct (map fst xs)" by simp
  show ?case
    using Cons.IH [OF d, of "AList.update a b d"] na x
    by (auto simp: update_conv' split: option.splits)
qed

lemma map_of_filter_not_none:
  "distinct (map fst xs) \<Longrightarrow>
   map_of (filter (\<lambda>(k, v). v \<noteq> VNone) xs) k =
     (case map_of xs k of None \<Rightarrow> None | Some v \<Rightarrow> if v = VNone then None else Some v)"
proof (induction xs)
  case Nil
  then show ?case by simp
next
  case (Cons x xs)
  obtain a b where x: "x = (a, b)" by (cases x)
  from Cons.prems x have na: "map_of xs a = None"
    by (simp add: map_of_eq_None_iff)
  from Cons.prems have d: "distinct (map fst xs)" by simp
  show ?case
    using Cons.IH [OF d] na x by (auto split: option.splits)
qed

lemma distinct_filter_keys:
  "distinct (map fst xs) \<Longrightarrow> distinct (map fst (filter P xs))"
  by (induction xs) auto

text \<open>
  C10. For provider parameters with distinct keys (a \<open>dict\<close>) and every key: after the
  merge of \<open>forward\<close>, the key holds the provider's value when the provider gives it a
  value other than \<open>None\<close>, whatever the normalizer had computed and with no validation
  of the new value; it holds the normalizer's value (or stays absent) when the provider
  gives \<open>None\<close> or does not mention the key.
\<close>

theorem merge_provider_params_get:
  "distinct (map fst provider_params) \<Longrightarrow>
   dict_get (merge_provider_params hf_kwargs provider_params) k =
     (case dict_get provider_params k of
        None \<Rightarrow> dict_get hf_kwargs k
      | Some v \<Rightarrow> if v = VNone then dict_get hf_kwargs k else Some v)"
  by (simp add: merge_provider_params_def dict_update_def dict_get_def map_of_fold_update
      map_of_filter_not_none distinct_filter_keys split: option.splits)

text \<open>
  The merge at work: a provider-supplied \<open>max_new_tokens\<close> of \<open>-5\<close> replaces the validated
  512 and reaches the backend, the unset \<open>temperature\<close> leaves the normalizer's value.
\<close>

theorem merge_provider_params_get_witness:
  "distinct (map fst override_params) \<and>
   dict_get
     (merge_provider_params
        [(''prompt'', VStr ''Explain retries''), (''max_new_tokens'', VInt 512),
         (''temperature'', VFloat (7 / 10)), (''timeout'', VNone)]
        override_params) ''max_new_tokens'' = Some (VInt (- 5)) \<and>
   dict_get
     (merge_provider_params
        [(''prompt'', VStr ''Explain retries''), (''max_new_tokens'', VInt 512),
         (''temperature'', VFloat (7 / 10)), (''timeout'', VNone)]
        override_params) ''temperature'' = Some (VFloat (7 / 10)) \<and>
   fst (forward (stub_env 0) stub_model
          (stub_request\<lparr>req_provider_params := override_params\<rparr>) fresh_world) =
     Inr \<lparr>resp_data = ''Because networks fail.'',
          resp_raw_output = make_raw_output ''Because networks fail.'' ''gpt2'' 3 4,
          resp_usage = \<lparr>total_tokens = 7, prompt_tokens = 3, completion_tokens = 4,
                        cost_usd = rnd64 (11 / 1000000)\<rparr>\<rparr> \<and>
   remote_calls (snd (forward (stub_env 0) stub_model
          (stub_request\<lparr>req_provider_params := override_params\<rparr>) fresh_world)) =
     [(VStr ''Explain retries'', ''gpt2'',
       [(''max_new_tokens'', VInt (- 5)), (''temperature'', VFloat (7 / 10)),
        (''seed'', VInt 7)])]"
proof -
  have d: "distinct (map fst override_params)"
    by (simp add: override_params_def)
  have g1: "dict_get override_params ''max_new_tokens'' = Some (VInt (- 5))"
    and g2: "dict_get override_params ''temperature'' = Some VNone"
    by (simp_all add: override_params_def dict_get_def)
  have f: "fst (forward (stub_env 0) stub_model
          (stub_request\<lparr>req_provider_params := override_params\<rparr>) fresh_world) =
     Inr \<lparr>resp_data = ''Because networks fail.'',
          resp_raw_output = make_raw_output ''Because networks fail.'' ''gpt2'' 3 4,
          resp_usage = \<lparr>total_tokens = 7, prompt_tokens = 3, completion_tokens = 4,
                        cost_usd = rnd64 (11 / 1000000)\<rparr>\<rparr>"
    by (simp add: forward_eval)
  have r: "remote_calls (snd (forward (stub_env 0) stub_model
          (stub_request\<lparr>req_provider_params := override_params\<rparr>) fresh_world)) =
     [(VStr ''Explain retries'', ''gpt2'',
       [(''max_new_tokens'', VInt (- 5)), (''temperature'', VFloat (7 / 10)),
        (''seed'', VInt 7)])]"
    by (simp add: forward_eval)
  have m1: "dict_get
     (merge_provider_params
        [(''prompt'', VStr ''Explain retries''), (''max_new_tokens'', VInt 512),
         (''temperature'', VFloat (7 / 10)), (''timeout'', VNone)]
        override_params) ''max_new_tokens'' = Some (VInt (- 5))"
    using merge_provider_params_get [OF d, of _ "''max_new_tokens''"]
    by (simp add: g1)
  have m2: "dict_get
     (merge_provider_params
        [(''prompt'', VStr ''Explain retries''), (''max_new_tokens'', VInt 512),
         (''temperature'', VFloat (7 / 10)), (''timeout'', VNone)]
        override_params) ''temperature'' =
      dict_get [(''prompt'', VStr ''Explain retries''), (''max_new_tokens'', VInt 512),
         (''temperature'', VFloat (7 / 10)), (''timeout'', VNone)] ''temperature''"
    using merge_provider_params_get [OF d, of _ "''temperature''"]
    by (simp add: g2)
  have b: "dict_get [(''prompt'', VStr ''Explain retries''), (''max_new_tokens'', VInt 512),
         (''temperature'', VFloat (7 / 10)), (''timeout'', VNone)] ''temperature'' =
         Some (VFloat (7 / 10))"
    by (simp add: dict_get_def)
  from d m1 m2 [unfolded b] f r show ?thesis
    by (intro conjI)
qed

section \<open>The remote path drops the timeout\<close>

text \<open>
  C8. The remote path pops \<open>timeout\<close> from the keyword arguments and never uses the
  value. For the request \<open>{prompt: "Explain retries", timeout: 5}\<close> the one backend call
  receives the prompt, the model and the keyword arguments \<open>max_new_tokens\<close> and
  \<open>temperature\<close> only; the whole run equals the run of the same request with no timeout.
  For a request with no timeout the key is present with the value \<open>None\<close>, so the pop
  yields \<open>None\<close> and not the default 30. The raw text of the backend is the generated
  text of the response.
\<close>

theorem forward_remote_timeout_discarded:
  "remote_calls (snd (forward (stub_env 0) stub_model
      (stub_request\<lparr>req_timeout := Some 5\<rparr>) fresh_world)) =
     [(VStr ''Explain retries'', ''gpt2'',
       [(''max_new_tokens'', VInt 512), (''temperature'', VFloat (7 / 10))])] \<and>
   forward (stub_env 0) stub_model (stub_request\<lparr>req_timeout := Some 5\<rparr>) fresh_world =
     forward (stub_env 0) stub_model stub_request fresh_world \<and>
   fst (dict_pop
          (merge_provider_params
             (to_huggingface_kwargs (stub_env 0)
                \<lparr>par_prompt = ''Explain retries'', par_context = None,
                 par_temperature = 7 / 10, par_max_tokens = 512, par_timeout = None\<rparr>)
             [])
          ''timeout'' (VInt 30)) = VNone \<and>
   map_sum id resp_data (fst (forward (stub_env 0) stub_model
      (stub_request\<lparr>req_timeout := Some 5\<rparr>) fresh_world)) = Inr ''Because networks fail.''"
  by (simp add: forward_eval)

section \<open>The body of forward leaves the retry bookkeeping alone\<close>

lemma keeps_bind:
  assumes "keeps_retry m" and "\<And>x. keeps_retry (f x)"
  shows "keeps_retry (py_bind m f)"
  unfolding keeps_retry_def
proof
  fix w
  obtain r w' where mw: "m w = (r, w')" by (cases "m w")
  with assms(1) have "sleeps w' = sleeps w \<and> attempts w' = attempts w"
    by (auto simp: keeps_retry_def dest: spec [of _ w])
  with mw assms(2) show "sleeps (snd (py_bind m f w)) = sleeps w \<and>
      attempts (snd (py_bind m f w)) = attempts w"
    by (cases r) (simp_all add: py_bind_def keeps_retry_def)
qed

lemma keeps_try:
  assumes "keeps_retry m" and "\<And>x. keeps_retry (h x)"
  shows "keeps_retry (py_try m h)"
  unfolding keeps_retry_def
proof
  fix w
  obtain r w' where mw: "m w = (r, w')" by (cases "m w")
  with assms(1) have "sleeps w' = sleeps w \<and> attempts w' = attempts w"
    by (auto simp: keeps_retry_def dest: spec [of _ w])
  with mw assms(2) show "sleeps (snd (py_try m h w)) = sleeps w \<and>
      attempts (snd (py_try m h w)) = attempts w"
    by (cases r) (simp_all add: py_try_def keeps_retry_def)
qed

lemma keeps_return: "keeps_retry (py_return x)"
  by (simp add: keeps_retry_def py_return_def)

lemma keeps_raise: "keeps_retry (py_raise x)"
  by (simp add: keeps_retry_def py_raise_def)

lemma keeps_log: "keeps_retry (log_msg lv msg args)"
  by (simp add: keeps_retry_def log_msg_def)

lemma keeps_ext_unit: "keeps_retry (ext_unit f)"
  by (simp add: keeps_retry_def ext_unit_def split: option.splits)

lemma keeps_ext_call: "keeps_retry (ext_call f)"
  by (simp add: keeps_retry_def ext_call_def)

lemma keeps_prod: "(\<And>a b. keeps_retry (f a b)) \<Longrightarrow> keeps_retry (case p of (a, b) \<Rightarrow> f a b)"
  by (cases p) simp

lemma keeps_if: "keeps_retry a \<Longrightarrow> keeps_retry b \<Longrightarrow> keeps_retry (if c then a else b)"
  by simp

lemma keeps_normalize: "keeps_retry (normalize_huggingface_model_name e n)"
  by (simp add: keeps_retry_def normalize_model_name_eq split: option.splits)

lemma keeps_set_tokenizer: "keeps_retry (\<lambda>w. (Inr x, w\<lparr>tokenizer := t\<rparr>))"
  by (simp add: keeps_retry_def)

lemma keeps_get_tokenizer: "keeps_retry (get_tokenizer e mi)"
proof -
  have a: "keeps_retry (py_bind (normalize_huggingface_model_name e (mi_name mi)) (\<lambda>model_id.
          py_bind (ext_unit (\<lambda>t. from_pretrained e t model_id)) (\<lambda>_.
          (\<lambda>w'. (Inr model_id, w'\<lparr>tokenizer := Some model_id\<rparr>)))))"
    by (intro keeps_bind keeps_normalize keeps_ext_unit keeps_set_tokenizer)
  show ?thesis
    unfolding keeps_retry_def
  proof
    fix w
    show "sleeps (snd (get_tokenizer e mi w)) = sleeps w \<and>
          attempts (snd (get_tokenizer e mi w)) = attempts w"
      using a by (cases "tokenizer w") (simp_all add: get_tokenizer_def keeps_retry_def)
  qed
qed

lemma keeps_count_tokens: "keeps_retry (count_tokens e mi text)"
proof -
  have h: "keeps_retry (case text of VStr s \<Rightarrow> py_return (int (length (py_split s)))
                  | _ \<Rightarrow> py_raise (PyException ''AttributeError'' ''split''))"
    by (cases "text") (simp_all add: keeps_return keeps_raise)
  show ?thesis
    unfolding count_tokens_def count_tokens_try_def
    by (intro keeps_try keeps_bind keeps_get_tokenizer keeps_ext_call keeps_return keeps_log h)
qed

lemma keeps_load_local_model: "keeps_retry (load_local_model e model_id)"
  unfolding load_local_model_def
  by (intro keeps_try keeps_bind keeps_ext_unit keeps_log keeps_return keeps_raise)
     (simp add: keeps_retry_def)

lemma keeps_pop_required: "keeps_retry (dict_pop_required d k)"
  by (simp add: dict_pop_required_def keeps_raise keeps_return split: option.splits)

lemma keeps_extract: "keeps_retry (extract_generated_text p r)"
  by (simp add: extract_generated_text_def keeps_raise keeps_return
      split: pipe_out.splits list.splits pyval.splits option.splits)

lemma keeps_remote_call:
  "keeps_retry (\<lambda>w. ext_call f (w\<lparr>remote_calls := remote_calls w @ [c]\<rparr>))"
  by (simp add: keeps_retry_def ext_call_def)

lemma keeps_local_call:
  "keeps_retry (\<lambda>w. ext_call f (w\<lparr>local_calls := local_calls w @ [c]\<rparr>))"
  by (simp add: keeps_retry_def ext_call_def)

lemma keeps_remote: "keeps_retry (remote_inference e mi model_id kw)"
  unfolding remote_inference_def
  by (intro keeps_prod keeps_bind keeps_pop_required keeps_remote_call keeps_count_tokens
      keeps_return)

lemma keeps_get_local_model:
  "keeps_retry (\<lambda>w. case local_model w of
               Some m \<Rightarrow> (Inr m, w)
             | None \<Rightarrow>
                 py_bind (load_local_model e model_id)
                   (\<lambda>m w'. (Inr m, w'\<lparr>local_model := Some m\<rparr>)) w)"
proof -
  have a: "keeps_retry (py_bind (load_local_model e model_id)
                   (\<lambda>m w'. (Inr m, w'\<lparr>local_model := Some m\<rparr>)))"
    by (intro keeps_bind keeps_load_local_model) (simp add: keeps_retry_def)
  show ?thesis
    unfolding keeps_retry_def
  proof
    fix w
    show "sleeps (snd (case local_model w of
               Some m \<Rightarrow> (Inr m, w)
             | None \<Rightarrow>
                 py_bind (load_local_model e model_id)
                   (\<lambda>m w'. (Inr m, w'\<lparr>local_model := Some m\<rparr>)) w)) = sleeps w \<and>
          attempts (snd (case local_model w of
               Some m \<Rightarrow> (Inr m, w)
             | None \<Rightarrow>
                 py_bind (load_local_model e model_id)
                   (\<lambda>m w'. (Inr m, w'\<lparr>local_model := Some m\<rparr>)) w)) = attempts w"
      using a by (cases "local_model w") (simp_all add: keeps_retry_def)
  qed
qed

lemma keeps_local: "keeps_retry (local_inference e mi model_id kw)"
  unfolding local_inference_def
  by (intro keeps_prod keeps_bind keeps_get_local_model keeps_pop_required keeps_local_call
      keeps_extract keeps_count_tokens keeps_return)

lemma keeps_handler: "keeps_retry (handle_forward_error e exc)"
  by (cases exc)
     (auto simp: handle_forward_error_def keeps_raise keeps_log keeps_bind split: option.splits)

lemma keeps_forward_body: "keeps_retry (forward_body e mi request)"
proof -
  have v: "keeps_retry (\<lambda>w. (HuggingFaceChatParameters p request, w))" for p
    by (simp add: keeps_retry_def)
  have u: "keeps_retry (\<lambda>w. (calculate_usage mi raw, w))" for raw
    by (simp add: keeps_retry_def)
  show ?thesis
    unfolding forward_body_def
    by (cases "req_prompt request")
       (auto intro!: keeps_raise keeps_bind keeps_log v u keeps_prod keeps_normalize keeps_try
          keeps_if keeps_local keeps_remote keeps_return keeps_handler)
qed

section \<open>The retry policy around forward\<close>

lemma retry_success:
  "f (w\<lparr>attempts := n\<rparr>) = (Inr r, w') \<Longrightarrow> retry f n w = (Inr r, w')"
  by (subst retry.simps) simp

lemma retry_last: "3 \<le> n \<Longrightarrow> retry f n w = f (w\<lparr>attempts := n\<rparr>)"
  by (subst retry.simps) (simp add: stop_after_attempt_def split: prod.splits sum.splits)

lemma retry_first_fails:
  "f (w\<lparr>attempts := 1\<rparr>) = (Inl exc, w') \<Longrightarrow>
   retry f 1 w = retry f 2 (w'\<lparr>sleeps := sleeps w' @ [1]\<rparr>)"
  by (subst retry.simps) (simp add: stop_after_attempt_def wait_exponential_def numeral_2_eq_2 numeral_3_eq_3)

lemma retry_second_fails:
  "f (w\<lparr>attempts := 2\<rparr>) = (Inl exc, w') \<Longrightarrow>
   retry f 2 w = retry f 3 (w'\<lparr>sleeps := sleeps w' @ [2]\<rparr>)"
  by (subst retry.simps) (simp add: stop_after_attempt_def wait_exponential_def numeral_2_eq_2 numeral_3_eq_3)

lemma wait_exponential_values: "wait_exponential 1 = 1" "wait_exponential 2 = 2"
  by (simp_all add: wait_exponential_def)

lemma wait_exponential_bounds: "1 \<le> wait_exponential n \<and> wait_exponential n \<le> 10"
  by (simp add: wait_exponential_def)

lemma wait_exponential_doubles:
  "1 \<le> n \<Longrightarrow> wait_exponential (Suc n) = min 10 (2 * wait_exponential n)"
proof -
  assume "1 \<le> n"
  then obtain m where n: "n = Suc m" by (cases n) auto
  have "(1::nat) \<le> 2 ^ m" by simp
  then show ?thesis
    unfolding n wait_exponential_def by (simp add: min_def max_def)
qed

lemma body_keeps:
  "forward_body e mi request w = (r, w') \<Longrightarrow> sleeps w' = sleeps w \<and> attempts w' = attempts w"
  using keeps_forward_body [of e mi request] by (auto simp: keeps_retry_def dest: spec [of _ w])

lemma forward_one_attempt:
  assumes "forward_body e mi request (w\<lparr>attempts := 1\<rparr>) = (Inr r, w1)"
  shows "forward e mi request w = (Inr r, w1) \<and> attempts w1 = 1 \<and> sleeps w1 = sleeps w"
  using retry_success [where f = "forward_body e mi request", OF assms] body_keeps [OF assms]
  by (simp add: forward_def)

lemma forward_two_attempts:
  assumes a1: "forward_body e mi request (w\<lparr>attempts := 1\<rparr>) = (Inl e1, w1)"
    and a2: "forward_body e mi request (w1\<lparr>sleeps := sleeps w1 @ [1], attempts := 2\<rparr>) = (Inr r, w2)"
  shows "forward e mi request w = (Inr r, w2) \<and> attempts w2 = 2 \<and> sleeps w2 = sleeps w @ [1]"
proof -
  have "forward e mi request w =
          retry (forward_body e mi request) 2 (w1\<lparr>sleeps := sleeps w1 @ [1]\<rparr>)"
    using retry_first_fails [where f = "forward_body e mi request", OF a1]
    by (simp add: forward_def)
  also have "\<dots> = (Inr r, w2)"
    using a2 by (intro retry_success [where f = "forward_body e mi request"]) simp
  finally show ?thesis
    using body_keeps [OF a1] body_keeps [OF a2] by simp
qed

lemma forward_three_attempts:
  assumes a1: "forward_body e mi request (w\<lparr>attempts := 1\<rparr>) = (Inl e1, w1)"
    and a2: "forward_body e mi request (w1\<lparr>sleeps := sleeps w1 @ [1], attempts := 2\<rparr>) = (Inl e2, w2)"
    and a3: "forward_body e mi request (w2\<lparr>sleeps := sleeps w2 @ [2], attempts := 3\<rparr>) = (res, w3)"
  shows "forward e mi request w = (res, w3) \<and> attempts w3 = 3 \<and> sleeps w3 = sleeps w @ [1, 2]"
proof -
  have "forward e mi request w =
          retry (forward_body e mi request) 2 (w1\<lparr>sleeps := sleeps w1 @ [1]\<rparr>)"
    using retry_first_fails [where f = "forward_body e mi request", OF a1]
    by (simp add: forward_def)
  also have "\<dots> = retry (forward_body e mi request) 3 (w2\<lparr>sleeps := sleeps w2 @ [2]\<rparr>)"
    using a2 by (intro retry_second_fails [where f = "forward_body e mi request"]) simp
  also have "\<dots> = (res, w3)"
    using a3 by (simp add: retry_last)
  finally show ?thesis
    using body_keeps [OF a1] body_keeps [OF a2] body_keeps [OF a3] by simp
qed

lemma forward_attempts_bounded:
  "1 \<le> attempts (snd (forward e mi request w)) \<and> attempts (snd (forward e mi request w)) \<le> 3"
proof -
  obtain r1 w1 where a1: "forward_body e mi request (w\<lparr>attempts := 1\<rparr>) = (r1, w1)"
    by (cases "forward_body e mi request (w\<lparr>attempts := 1\<rparr>)")
  show ?thesis
  proof (cases r1)
    case (Inr r)
    with forward_one_attempt a1 show ?thesis by fastforce
  next
    case e1: (Inl e1)
    obtain r2 w2 where a2:
      "forward_body e mi request (w1\<lparr>sleeps := sleeps w1 @ [1], attempts := 2\<rparr>) = (r2, w2)"
      by (cases "forward_body e mi request (w1\<lparr>sleeps := sleeps w1 @ [1], attempts := 2\<rparr>)")
    show ?thesis
    proof (cases r2)
      case (Inr r)
      with forward_two_attempts [of e mi request w e1 w1 r w2] a1 a2 e1 show ?thesis by simp
    next
      case e2: (Inl e2)
      obtain r3 w3 where a3:
        "forward_body e mi request (w2\<lparr>sleeps := sleeps w2 @ [2], attempts := 3\<rparr>) = (r3, w3)"
        by (cases "forward_body e mi request (w2\<lparr>sleeps := sleeps w2 @ [2], attempts := 3\<rparr>)")
      with forward_three_attempts [of e mi request w e1 w1 e2 w2 r3 w3] a1 a2 e1 e2
      show ?thesis by simp
    qed
  qed
qed

text \<open>
  C5. \<open>forward\<close> runs its body at most 3 times. A first attempt that returns ends the
  call. An attempt that raises is followed by a wait and another attempt: the wait after
  attempt \<open>n\<close> is \<open>wait_exponential n\<close>, which is 1 after the first attempt, doubles with
  each attempt and never exceeds 10. When the first two attempts raise, the outcome of
  the call is the outcome of the third, in the state it leaves, after waits of 1 and 2:
  its result when it returns, its own exception, unchanged, when it raises.
\<close>

theorem forward_retry_policy:
  "(\<forall>r w1. forward_body e mi request (w\<lparr>attempts := 1\<rparr>) = (Inr r, w1) \<longrightarrow>
      forward e mi request w = (Inr r, w1) \<and> attempts w1 = 1 \<and> sleeps w1 = sleeps w) \<and>
   (\<forall>e1 w1 r w2.
      forward_body e mi request (w\<lparr>attempts := 1\<rparr>) = (Inl e1, w1) \<and>
      forward_body e mi request (w1\<lparr>sleeps := sleeps w1 @ [1], attempts := 2\<rparr>) = (Inr r, w2) \<longrightarrow>
      forward e mi request w = (Inr r, w2) \<and> attempts w2 = 2 \<and> sleeps w2 = sleeps w @ [1]) \<and>
   (\<forall>e1 w1 e2 w2 res w3.
      forward_body e mi request (w\<lparr>attempts := 1\<rparr>) = (Inl e1, w1) \<and>
      forward_body e mi request (w1\<lparr>sleeps := sleeps w1 @ [1], attempts := 2\<rparr>) = (Inl e2, w2) \<and>
      forward_body e mi request (w2\<lparr>sleeps := sleeps w2 @ [2], attempts := 3\<rparr>) = (res, w3) \<longrightarrow>
      forward e mi request w = (res, w3) \<and> attempts w3 = 3 \<and> sleeps w3 = sleeps w @ [1, 2]) \<and>
   1 \<le> attempts (snd (forward e mi request w)) \<and>
   attempts (snd (forward e mi request w)) \<le> 3 \<and>
   wait_exponential 1 = 1 \<and> wait_exponential 2 = 2 \<and>
   (\<forall>n. 1 \<le> wait_exponential n \<and> wait_exponential n \<le> 10) \<and>
   (\<forall>n. 1 \<le> n \<longrightarrow> wait_exponential (Suc n) = min 10 (2 * wait_exponential n))"
  using forward_one_attempt [of e mi request w] forward_two_attempts [of e mi request w]
    forward_three_attempts [of e mi request w] forward_attempts_bounded [of e mi request w]
    wait_exponential_values wait_exponential_bounds wait_exponential_doubles
  by blast

theorem forward_retry_policy_witness:
  "fst (forward_body (stub_env 5) stub_model stub_request (fresh_world\<lparr>attempts := 1\<rparr>)) =
     Inl (HTTPError (Some 503) ''503 Server Error'') \<and>
   forward (stub_env 5) stub_model stub_request fresh_world =
     (Inr \<lparr>resp_data = ''Because networks fail.'',
           resp_raw_output = make_raw_output ''Because networks fail.'' ''gpt2'' 3 4,
           resp_usage = \<lparr>total_tokens = 7, prompt_tokens = 3, completion_tokens = 4,
                         cost_usd = rnd64 (11 / 1000000)\<rparr>\<rparr>,
      snd (forward (stub_env 5) stub_model stub_request fresh_world)) \<and>
   attempts (snd (forward (stub_env 5) stub_model stub_request fresh_world)) = 3 \<and>
   sleeps (snd (forward (stub_env 5) stub_model stub_request fresh_world)) = [1, 2] \<and>
   fst (forward (stub_env 100) stub_model stub_request fresh_world) =
     Inl (HTTPError (Some 503) ''503 Server Error'') \<and>
   attempts (snd (forward (stub_env 100) stub_model stub_request fresh_world)) = 3"
proof -
  define b1 where "b1 = forward_body (stub_env 5) stub_model stub_request (fresh_world\<lparr>attempts := 1\<rparr>)"
  define b2 where "b2 = forward_body (stub_env 5) stub_model stub_request
                          ((snd b1)\<lparr>sleeps := sleeps (snd b1) @ [1], attempts := 2\<rparr>)"
  define b3 where "b3 = forward_body (stub_env 5) stub_model stub_request
                          ((snd b2)\<lparr>sleeps := sleeps (snd b2) @ [2], attempts := 3\<rparr>)"
  have f1: "fst b1 = Inl (HTTPError (Some 503) ''503 Server Error'')"
    unfolding b1_def by (simp add: forward_eval)
  have f2: "fst b2 = Inl (HTTPError (Some 503) ''503 Server Error'')"
    unfolding b2_def b1_def by (simp add: forward_eval)
  have f3: "fst b3 = Inr \<lparr>resp_data = ''Because networks fail.'',
           resp_raw_output = make_raw_output ''Because networks fail.'' ''gpt2'' 3 4,
           resp_usage = \<lparr>total_tokens = 7, prompt_tokens = 3, completion_tokens = 4,
                         cost_usd = rnd64 (11 / 1000000)\<rparr>\<rparr>"
    unfolding b3_def b2_def b1_def by (simp add: forward_eval)
  have sl: "sleeps fresh_world = []" by (simp add: fresh_world_def)
  have p1: "forward_body (stub_env 5) stub_model stub_request (fresh_world\<lparr>attempts := 1\<rparr>) =
              (Inl (HTTPError (Some 503) ''503 Server Error''), snd b1)"
    using f1 by (simp add: b1_def prod_eq_iff)
  have p2: "forward_body (stub_env 5) stub_model stub_request
              ((snd b1)\<lparr>sleeps := sleeps (snd b1) @ [1], attempts := 2\<rparr>) =
              (Inl (HTTPError (Some 503) ''503 Server Error''), snd b2)"
    using f2 by (simp add: b2_def prod_eq_iff)
  have p3: "forward_body (stub_env 5) stub_model stub_request
              ((snd b2)\<lparr>sleeps := sleeps (snd b2) @ [2], attempts := 3\<rparr>) = (fst b3, snd b3)"
    by (simp add: b3_def)
  note t = forward_retry_policy [of "stub_env 5" stub_model stub_request fresh_world]
  note t3 = t [THEN conjunct2, THEN conjunct2, THEN conjunct1, THEN spec, THEN spec, THEN spec,
               THEN spec, THEN spec, THEN spec, THEN mp, OF conjI, OF p1 conjI, OF p2 p3]
  define c1 where "c1 = forward_body (stub_env 100) stub_model stub_request (fresh_world\<lparr>attempts := 1\<rparr>)"
  define c2 where "c2 = forward_body (stub_env 100) stub_model stub_request
                          ((snd c1)\<lparr>sleeps := sleeps (snd c1) @ [1], attempts := 2\<rparr>)"
  define c3 where "c3 = forward_body (stub_env 100) stub_model stub_request
                          ((snd c2)\<lparr>sleeps := sleeps (snd c2) @ [2], attempts := 3\<rparr>)"
  have g1: "fst c1 = Inl (HTTPError (Some 503) ''503 Server Error'')"
    unfolding c1_def by (simp add: forward_eval)
  have g2: "fst c2 = Inl (HTTPError (Some 503) ''503 Server Error'')"
    unfolding c2_def c1_def by (simp add: forward_eval)
  have g3: "fst c3 = Inl (HTTPError (Some 503) ''503 Server Error'')"
    unfolding c3_def c2_def c1_def by (simp add: forward_eval)
  have q1: "forward_body (stub_env 100) stub_model stub_request (fresh_world\<lparr>attempts := 1\<rparr>) =
              (Inl (HTTPError (Some 503) ''503 Server Error''), snd c1)"
    using g1 by (simp add: c1_def prod_eq_iff)
  have q2: "forward_body (stub_env 100) stub_model stub_request
              ((snd c1)\<lparr>sleeps := sleeps (snd c1) @ [1], attempts := 2\<rparr>) =
              (Inl (HTTPError (Some 503) ''503 Server Error''), snd c2)"
    using g2 by (simp add: c2_def prod_eq_iff)
  have q3: "forward_body (stub_env 100) stub_model stub_request
              ((snd c2)\<lparr>sleeps := sleeps (snd c2) @ [2], attempts := 3\<rparr>) = (fst c3, snd c3)"
    by (simp add: c3_def)
  note u = forward_retry_policy [of "stub_env 100" stub_model stub_request fresh_world]
  note u3 = u [THEN conjunct2, THEN conjunct2, THEN conjunct1, THEN spec, THEN spec, THEN spec,
               THEN spec, THEN spec, THEN spec, THEN mp, OF conjI, OF q1 conjI, OF q2 q3]
  show ?thesis
    using t3 u3 f1 [unfolded b1_def] by (simp add: f3 g3 sl)
qed

section \<open>Invalid input is rejected, but only after the retries\<close>

lemma body_empty_prompt:
  "req_prompt request = None \<or> req_prompt request = Some [] \<Longrightarrow>
   forward_body e mi request w =
     (Inl (InvalidPromptError ''HuggingFace prompt cannot be empty.'' ''HuggingFace''
            (mi_name mi)), w)"
  by (auto simp: forward_body_def py_raise_def PROVIDER_NAME_def)

lemma body_bad_max_tokens:
  "req_prompt request = Some p \<Longrightarrow> p \<noteq> [] \<Longrightarrow> req_max_tokens request = Some n \<Longrightarrow> n \<le> 0 \<Longrightarrow>
   forward_body e mi request w =
     (Inl (ValidationError (''max_tokens must be a positive integer, got '' @ str_int n)
            ''HuggingFace''),
      w\<lparr>logs := logs w @
          [LogRecord INFO ''HuggingFace forward invoked''
             [AStr ''HuggingFace'', AStr (mi_name mi), AInt (int (length p))]]\<rparr>)"
  by (simp add: forward_body_def py_bind_def log_msg_def HuggingFaceChatParameters_def
      ensure_positive_def enforce_default_if_none_def PROVIDER_NAME_def)

lemma forward_empty_prompt:
  assumes "req_prompt request = None \<or> req_prompt request = Some []"
  shows "forward e mi request w =
     (Inl (InvalidPromptError ''HuggingFace prompt cannot be empty.'' ''HuggingFace''
            (mi_name mi)),
      w\<lparr>sleeps := sleeps w @ [1, 2], attempts := 3\<rparr>)"
  using forward_three_attempts [of e mi request w, OF body_empty_prompt [OF assms]
          body_empty_prompt [OF assms] body_empty_prompt [OF assms]]
  by simp

lemma forward_bad_max_tokens:
  assumes "req_prompt request = Some p" "p \<noteq> []" "req_max_tokens request = Some n" "n \<le> 0"
  shows "forward e mi request w =
     (Inl (ValidationError (''max_tokens must be a positive integer, got '' @ str_int n)
            ''HuggingFace''),
      w\<lparr>logs := logs w @
          replicate 3 (LogRecord INFO ''HuggingFace forward invoked''
             [AStr ''HuggingFace'', AStr (mi_name mi), AInt (int (length p))]),
        sleeps := sleeps w @ [1, 2], attempts := 3\<rparr>)"
  using forward_three_attempts [of e mi request w, OF body_bad_max_tokens [OF assms]
          body_bad_max_tokens [OF assms] body_bad_max_tokens [OF assms]]
  by (simp add: numeral_3_eq_3)

text \<open>
  What \<open>forward\<close> does with invalid input. A request whose prompt is missing or empty
  makes it raise the invalid-prompt error, with the provider \<open>HuggingFace\<close>; a request
  with a prompt and a \<open>max_tokens\<close> of zero or less makes it raise the validation error,
  whose message names \<open>max_tokens\<close> and the offending value and whose provider is
  \<open>HuggingFace\<close>. No backend or catalog call is made. Both checks stand inside the
  function the retry decorator wraps, and the decorator retries on every exception, so
  the rejection is repeated on each of 3 attempts, with waits of 1 and 2 between them.
\<close>

lemma invalid_input_raised_by_every_attempt:
  "((req_prompt request = None \<or> req_prompt request = Some []) \<longrightarrow>
      forward e mi request w =
        (Inl (InvalidPromptError ''HuggingFace prompt cannot be empty.'' ''HuggingFace''
               (mi_name mi)),
         w\<lparr>sleeps := sleeps w @ [1, 2], attempts := 3\<rparr>)) \<and>
   (\<forall>p n. req_prompt request = Some p \<and> p \<noteq> [] \<and> req_max_tokens request = Some n \<and> n \<le> 0 \<longrightarrow>
      forward e mi request w =
        (Inl (ValidationError (''max_tokens must be a positive integer, got '' @ str_int n)
               ''HuggingFace''),
         w\<lparr>logs := logs w @
             replicate 3 (LogRecord INFO ''HuggingFace forward invoked''
                [AStr ''HuggingFace'', AStr (mi_name mi), AInt (int (length p))]),
           sleeps := sleeps w @ [1, 2], attempts := 3\<rparr>)) \<and>
   ((req_prompt request = None \<or> req_prompt request = Some [] \<or>
     (\<exists>n. req_max_tokens request = Some n \<and> n \<le> 0)) \<longrightarrow>
      (\<exists>exc. fst (forward e mi request w) = Inl exc) \<and>
      remote_calls (snd (forward e mi request w)) = remote_calls w \<and>
      local_calls (snd (forward e mi request w)) = local_calls w \<and>
      tick (snd (forward e mi request w)) = tick w \<and>
      attempts (snd (forward e mi request w)) = 3 \<and>
      sleeps (snd (forward e mi request w)) = sleeps w @ [1, 2])"
proof (intro conjI impI allI)
  assume "req_prompt request = None \<or> req_prompt request = Some []"
  then show "forward e mi request w =
        (Inl (InvalidPromptError ''HuggingFace prompt cannot be empty.'' ''HuggingFace''
               (mi_name mi)),
         w\<lparr>sleeps := sleeps w @ [1, 2], attempts := 3\<rparr>)"
    by (rule forward_empty_prompt)
next
  fix p n
  assume "req_prompt request = Some p \<and> p \<noteq> [] \<and> req_max_tokens request = Some n \<and> n \<le> 0"
  then show "forward e mi request w =
        (Inl (ValidationError (''max_tokens must be a positive integer, got '' @ str_int n)
               ''HuggingFace''),
         w\<lparr>logs := logs w @
             replicate 3 (LogRecord INFO ''HuggingFace forward invoked''
                [AStr ''HuggingFace'', AStr (mi_name mi), AInt (int (length p))]),
           sleeps := sleeps w @ [1, 2], attempts := 3\<rparr>)"
    by (intro forward_bad_max_tokens) simp_all
next
  assume a: "req_prompt request = None \<or> req_prompt request = Some [] \<or>
     (\<exists>n. req_max_tokens request = Some n \<and> n \<le> 0)"
  have "(\<exists>exc. fst (forward e mi request w) = Inl exc) \<and>
      remote_calls (snd (forward e mi request w)) = remote_calls w \<and>
      local_calls (snd (forward e mi request w)) = local_calls w \<and>
      tick (snd (forward e mi request w)) = tick w \<and>
      attempts (snd (forward e mi request w)) = 3 \<and>
      sleeps (snd (forward e mi request w)) = sleeps w @ [1, 2]"
  proof (cases "req_prompt request = None \<or> req_prompt request = Some []")
    case True
    then show ?thesis by (simp add: forward_empty_prompt)
  next
    case False
    with a obtain p n where "req_prompt request = Some p" "p \<noteq> []"
      "req_max_tokens request = Some n" "n \<le> 0"
      by (cases "req_prompt request") auto
    then show ?thesis by (simp add: forward_bad_max_tokens)
  qed
  then show "\<exists>exc. fst (forward e mi request w) = Inl exc"
    and "remote_calls (snd (forward e mi request w)) = remote_calls w"
    and "local_calls (snd (forward e mi request w)) = local_calls w"
    and "tick (snd (forward e mi request w)) = tick w"
    and "attempts (snd (forward e mi request w)) = 3"
    and "sleeps (snd (forward e mi request w)) = sleeps w @ [1, 2]"
    by blast+
qed

lemma str_int_minus_three: "str_int (- 3) = ''-3''"
  by (simp add: str_int_def str_nat.simps)

lemma invalid_input_raised_by_every_attempt_example:
  "req_prompt (stub_request\<lparr>req_prompt := None\<rparr>) = None \<and>
   forward (stub_env 0) stub_model (stub_request\<lparr>req_prompt := None\<rparr>) fresh_world =
     (Inl (InvalidPromptError ''HuggingFace prompt cannot be empty.'' ''HuggingFace''
            ''huggingface:gpt2''),
      fresh_world\<lparr>sleeps := [1, 2], attempts := 3\<rparr>) \<and>
   req_max_tokens (stub_request\<lparr>req_max_tokens := Some (- 3)\<rparr>) = Some (- 3) \<and>
   fst (forward (stub_env 0) stub_model (stub_request\<lparr>req_max_tokens := Some (- 3)\<rparr>)
          fresh_world) =
     Inl (ValidationError ''max_tokens must be a positive integer, got -3'' ''HuggingFace'') \<and>
   remote_calls (snd (forward (stub_env 0) stub_model
       (stub_request\<lparr>req_max_tokens := Some (- 3)\<rparr>) fresh_world)) = [] \<and>
   tick (snd (forward (stub_env 0) stub_model
       (stub_request\<lparr>req_max_tokens := Some (- 3)\<rparr>) fresh_world)) = 0"
proof -
  note a = invalid_input_raised_by_every_attempt
             [of "stub_request\<lparr>req_prompt := None\<rparr>" "stub_env 0" stub_model fresh_world]
  note b = invalid_input_raised_by_every_attempt
             [of "stub_request\<lparr>req_max_tokens := Some (- 3)\<rparr>" "stub_env 0" stub_model fresh_world]
  have h1: "req_prompt (stub_request\<lparr>req_prompt := None\<rparr>) = None \<or>
            req_prompt (stub_request\<lparr>req_prompt := None\<rparr>) = Some []"
    by simp
  have h2: "req_prompt (stub_request\<lparr>req_max_tokens := Some (- 3)\<rparr>) = Some ''Explain retries'' \<and>
            ''Explain retries'' \<noteq> [] \<and>
            req_max_tokens (stub_request\<lparr>req_max_tokens := Some (- 3)\<rparr>) = Some (- 3) \<and>
            (- 3 :: int) \<le> 0"
    by (simp add: stub_request_def)
  have h3: "req_prompt (stub_request\<lparr>req_max_tokens := Some (- 3)\<rparr>) = None \<or>
            req_prompt (stub_request\<lparr>req_max_tokens := Some (- 3)\<rparr>) = Some [] \<or>
            (\<exists>n. req_max_tokens (stub_request\<lparr>req_max_tokens := Some (- 3)\<rparr>) = Some n \<and> n \<le> 0)"
    by simp
  note a1 = a [THEN conjunct1, THEN mp, OF h1]
  note b2 = b [THEN conjunct2, THEN conjunct1, THEN spec, THEN spec, THEN mp, OF h2]
  note b3 = b [THEN conjunct2, THEN conjunct2, THEN mp, OF h3]
  have s: "sleeps fresh_world = []" "remote_calls fresh_world = []" "tick fresh_world = 0"
    "mi_name stub_model = ''huggingface:gpt2''"
    by (simp_all add: fresh_world_def stub_model_def)
  show ?thesis
    using a1 b2 b3 by (simp add: s str_int_minus_three)
qed

text \<open>
  C2. Invalid input is to fail at once, with an error naming the field and the provider,
  no backend call and no retry. On the request with an empty prompt \<open>forward\<close> raises the
  invalid-prompt error of the provider \<open>HuggingFace\<close>, but not at once: the call makes 3
  attempts and waits 1 and then 2 time-units before the error reaches the caller. The
  module's documentation promises retries for transient errors; the decorator has no
  such filter.
\<close>

theorem empty_prompt_is_retried:
  "fst (forward (stub_env 0) stub_model (stub_request\<lparr>req_prompt := Some []\<rparr>) fresh_world) =
     Inl (InvalidPromptError ''HuggingFace prompt cannot be empty.'' ''HuggingFace''
            ''huggingface:gpt2'') \<and>
   attempts (snd (forward (stub_env 0) stub_model (stub_request\<lparr>req_prompt := Some []\<rparr>)
                    fresh_world)) = 3 \<and>
   sleeps (snd (forward (stub_env 0) stub_model (stub_request\<lparr>req_prompt := Some []\<rparr>)
                  fresh_world)) = [1, 2] \<and>
   \<not> (attempts (snd (forward (stub_env 0) stub_model (stub_request\<lparr>req_prompt := Some []\<rparr>)
                       fresh_world)) = 1 \<and>
      sleeps (snd (forward (stub_env 0) stub_model (stub_request\<lparr>req_prompt := Some []\<rparr>)
                     fresh_world)) = [])"
  by (simp add: forward_eval)

section \<open>The ensemble calls its modules one after another\<close>

lemma returned_calls_0: "returned_calls i 0 p = []"
  by (simp add: returned_calls_def)

lemma returned_calls_Suc:
  "returned_calls i (Suc k) p = [Invoked i p, Returned i] @ returned_calls (Suc i) k p"
  by (simp add: returned_calls_def upt_rec)


lemma call_modules_events_ok:
  "call_modules i lms p w = (Inr rs, w') \<Longrightarrow>
   events w' = events w @ returned_calls i (length lms) p"
proof (induction lms arbitrary: i w rs)
  case Nil
  then show ?case by (simp add: py_return_def returned_calls_0)
next
  case (Cons lm lms)
  then show ?case
    by (fastforce simp: py_bind_def py_return_def on_ext_def returned_calls_Suc
        split: prod.splits sum.splits)
qed

lemma call_modules_events_raise:
  "call_modules i lms p w = (Inl exc, w') \<Longrightarrow>
   \<exists>k < length lms. events w' = events w @ returned_calls i k p @ [Invoked (i + k) p]"
proof (induction lms arbitrary: i w)
  case Nil
  then show ?case by (simp add: py_return_def)
next
  case (Cons lm lms)
  obtain r s' where lm: "lm p (ext w) = (r, s')" by (cases "lm p (ext w)")
  show ?case
  proof (cases r)
    case (Inl e)
    with Cons.prems lm have "events w' = events w @ [Invoked i p]"
      by (auto simp: py_bind_def on_ext_def)
    then have "events w' = events w @ returned_calls i 0 p @ [Invoked (i + 0) p]"
      by (simp add: returned_calls_0)
    then show ?thesis by blast
  next
    case (Inr x)
    define w1 where "w1 = w\<lparr>events := events w @ [Invoked i p] @ [Returned i], ext := s'\<rparr>"
    from Cons.prems lm Inr have "call_modules (Suc i) lms p w1 = (Inl exc, w')"
      by (auto simp: py_bind_def py_return_def on_ext_def w1_def split: prod.splits sum.splits)
    from Cons.IH [OF this] obtain k where k: "k < length lms"
      and ev: "events w' = events w1 @ returned_calls (Suc i) k p @ [Invoked (Suc i + k) p]"
      by blast
    from ev have "events w' = events w @ returned_calls i (Suc k) p @ [Invoked (i + Suc k) p]"
      by (simp add: w1_def returned_calls_Suc)
    with k show ?thesis by (intro exI [of _ "Suc k"]) simp
  qed
qed






lemma ensemble_forward_ok:
  assumes render: "render_prompt query (ext w) = (Inr p, s1)"
    and run: "call_modules 0 lm_modules p (w\<lparr>events := events w @ [Rendered query], ext := s1\<rparr>)
                = (Inr rs, w')"
  shows "ensemble_forward render_prompt lm_modules query w = (Inr \<lparr>responses = rs\<rparr>, w')"
  using render run by (simp add: ensemble_forward_def py_bind_def py_return_def on_ext_def)

lemma ensemble_forward_raise:
  assumes render: "render_prompt query (ext w) = (Inr p, s1)"
    and run: "call_modules 0 lm_modules p (w\<lparr>events := events w @ [Rendered query], ext := s1\<rparr>)
                = (Inl exc, w')"
  shows "ensemble_forward render_prompt lm_modules query w = (Inl exc, w')"
  using render run by (simp add: ensemble_forward_def py_bind_def py_return_def on_ext_def)


lemma stub_render_returns:
  "stub_render ''q'' (ext fresh_ens_world) = (Inr ''Q: q'', [])"
  by (simp add: stub_render_def fresh_ens_world_def)



lemmas ens_eval = ensemble_forward_def py_bind_def py_return_def on_ext_def stub_render_def
  const_lm_def observing_lm_def failing_lm_def fresh_ens_world_def

section \<open>The order of the ensemble's calls\<close>

text \<open>
  C7, as amended. The operator calls its modules one after another, in construction
  order: when rendering returns the prompt \<open>p\<close>, the events of a run are the rendering,
  then for the first \<open>k\<close> modules an invocation immediately followed by its return, then,
  when a module raised (\<open>k\<close> is its position and the run raises), its invocation alone. No
  module is invoked before the module ahead of it has returned, and none after a module
  has raised. The run returns exactly when all modules returned. When rendering raises,
  no module is invoked.
\<close>

theorem ensemble_forward_sequential:
  "(\<forall>p s1. render_prompt query (ext w) = (Inr p, s1) \<longrightarrow>
      (\<exists>k \<le> length lm_modules.
         events (snd (ensemble_forward render_prompt lm_modules query w)) =
           events w @ Rendered query # returned_calls 0 k p @
             (if k < length lm_modules then [Invoked k p] else []) \<and>
         ((\<exists>out. fst (ensemble_forward render_prompt lm_modules query w) = Inr out) \<longleftrightarrow>
          k = length lm_modules))) \<and>
   (\<forall>exc s1. render_prompt query (ext w) = (Inl exc, s1) \<longrightarrow>
      ensemble_forward render_prompt lm_modules query w =
        (Inl exc, w\<lparr>events := events w @ [Rendered query], ext := s1\<rparr>))"
proof (intro conjI allI impI)
  fix p s1
  assume render: "render_prompt query (ext w) = (Inr p, s1)"
  define w1 where "w1 = w\<lparr>events := events w @ [Rendered query], ext := s1\<rparr>"
  obtain res w' where run: "call_modules 0 lm_modules p w1 = (res, w')"
    by (cases "call_modules 0 lm_modules p w1")
  show "\<exists>k \<le> length lm_modules.
         events (snd (ensemble_forward render_prompt lm_modules query w)) =
           events w @ Rendered query # returned_calls 0 k p @
             (if k < length lm_modules then [Invoked k p] else []) \<and>
         ((\<exists>out. fst (ensemble_forward render_prompt lm_modules query w) = Inr out) \<longleftrightarrow>
          k = length lm_modules)"
  proof (cases res)
    case (Inr rs)
    with render run have fw:
      "ensemble_forward render_prompt lm_modules query w = (Inr \<lparr>responses = rs\<rparr>, w')"
      by (simp add: ensemble_forward_def py_bind_def py_return_def on_ext_def w1_def)
    from run Inr have "events w' = events w1 @ returned_calls 0 (length lm_modules) p"
      by (simp add: call_modules_events_ok)
    with fw show ?thesis
      by (intro exI [of _ "length lm_modules"]) (simp add: w1_def)
  next
    case (Inl exc)
    with render run have fw:
      "ensemble_forward render_prompt lm_modules query w = (Inl exc, w')"
      by (simp add: ensemble_forward_def py_bind_def py_return_def on_ext_def w1_def)
    from run Inl call_modules_events_raise [of 0 lm_modules p w1 exc w']
    obtain k where k: "k < length lm_modules"
      and ev: "events w' = events w1 @ returned_calls 0 k p @ [Invoked k p]"
      by auto
    with fw show ?thesis
      by (intro exI [of _ k]) (simp add: w1_def)
  qed
next
  fix exc s1
  assume "render_prompt query (ext w) = (Inl exc, s1)"
  then show "ensemble_forward render_prompt lm_modules query w =
        (Inl exc, w\<lparr>events := events w @ [Rendered query], ext := s1\<rparr>)"
    by (simp add: ensemble_forward_def py_bind_def on_ext_def)
qed

theorem ensemble_forward_sequential_witness:
  "stub_render ''q'' (ext fresh_ens_world) = (Inr ''Q: q'', []) \<and>
   (\<exists>k \<le> 3.
      events (snd (ensemble_forward stub_render [const_lm ''A'', failing_lm, const_lm ''C'']
                     ''q'' fresh_ens_world)) =
        Rendered ''q'' # returned_calls 0 k ''Q: q'' @
          (if k < 3 then [Invoked k ''Q: q''] else [])) \<and>
   events (snd (ensemble_forward stub_render [const_lm ''A'', failing_lm, const_lm ''C'']
                  ''q'' fresh_ens_world)) =
     [Rendered ''q'', Invoked 0 ''Q: q'', Returned 0, Invoked 1 ''Q: q''] \<and>
   fst (ensemble_forward stub_render [const_lm ''A'', failing_lm, const_lm ''C'']
          ''q'' fresh_ens_world) = Inl (PyException ''RuntimeError'' ''down'')"
proof -
  note t = ensemble_forward_sequential
             [of stub_render "''q''" fresh_ens_world
                 "[const_lm ''A'', failing_lm, const_lm ''C'']"]
  note t1 = t [THEN conjunct1, THEN spec, THEN spec, THEN mp, OF stub_render_returns]
  have e: "events fresh_ens_world = []" by (simp add: fresh_ens_world_def)
  from t1 obtain k where k: "k \<le> length [const_lm ''A'', failing_lm, const_lm ''C'']"
    and ev: "events (snd (ensemble_forward stub_render [const_lm ''A'', failing_lm, const_lm ''C'']
                     ''q'' fresh_ens_world)) =
        events fresh_ens_world @ Rendered ''q'' # returned_calls 0 k ''Q: q'' @
          (if k < length [const_lm ''A'', failing_lm, const_lm ''C''] then [Invoked k ''Q: q'']
           else [])"
    by blast
  from k have k3: "k \<le> 3" by simp
  have l3: "length [const_lm ''A'', failing_lm, const_lm ''C''] = 3" by simp
  have a: "\<exists>k \<le> 3.
      events (snd (ensemble_forward stub_render [const_lm ''A'', failing_lm, const_lm ''C'']
                     ''q'' fresh_ens_world)) =
        Rendered ''q'' # returned_calls 0 k ''Q: q'' @
          (if k < 3 then [Invoked k ''Q: q''] else [])"
    using k3 ev [unfolded l3 e] by (intro exI [of _ k]) simp
  have b: "events (snd (ensemble_forward stub_render [const_lm ''A'', failing_lm, const_lm ''C'']
                  ''q'' fresh_ens_world)) =
     [Rendered ''q'', Invoked 0 ''Q: q'', Returned 0, Invoked 1 ''Q: q'']"
    by (simp add: ens_eval)
  have c: "fst (ensemble_forward stub_render [const_lm ''A'', failing_lm, const_lm ''C'']
          ''q'' fresh_ens_world) = Inl (PyException ''RuntimeError'' ''down'')"
    by (simp add: ens_eval)
  from stub_render_returns a b c show ?thesis by (intro conjI)
qed

text \<open>
  A run with two modules: they do not run concurrently. The second is invoked after the
  first has returned, and its answer shows the state the first one left behind.
\<close>

theorem ensemble_calls_are_sequential:
  "events (snd (ensemble_forward stub_render [observing_lm ''A'', observing_lm ''B''] ''q''
                  fresh_ens_world)) =
     [Rendered ''q'', Invoked 0 ''Q: q'', Returned 0, Invoked 1 ''Q: q'', Returned 1] \<and>
   fst (ensemble_forward stub_render [observing_lm ''A'', observing_lm ''B''] ''q''
          fresh_ens_world) = Inr \<lparr>responses = [''A'', ''BA'']\<rparr>"
  by (simp add: ens_eval)

end
